theory Spec2Isabelle
  imports Main "HOL-Library.Word"
begin

unbundle bit_operations_syntax

section \<open>The BitFlags runtime (flagged.go)\<close>

text \<open>
  A \<^verbatim>\<open>BitIndex\<close> is a Go \<^verbatim>\<open>int\<close>. Every 64-bit value is an \<^typ>\<open>int\<close>; the functions
  below compare an index and never compute with it beyond a shift that is only reached for
  an index in range, so no wrap-around is involved.
\<close>

type_synonym BitIndex = int

text \<open>
  The four flag types are wrappers of \<^verbatim>\<open>uint8\<close>, \<^verbatim>\<open>uint16\<close>, \<^verbatim>\<open>uint32\<close> and
  \<^verbatim>\<open>uint64\<close>. The generic functions of the source are instantiated at exactly these four
  types (constraint \<^verbatim>\<open>bitFlags\<close>); a value of any of them is a \<open>bitflags\<close>.
\<close>

datatype bitflags =
    BitFlags8 "8 word"
  | BitFlags16 "16 word"
  | BitFlags32 "32 word"
  | BitFlags64 "64 word"

fun Size :: "bitflags \<Rightarrow> int" where
  "Size (BitFlags8 f) = 8"
| "Size (BitFlags16 f) = 16"
| "Size (BitFlags32 f) = 32"
| "Size (BitFlags64 f) = 64"

definition nSmalls :: int where
  "nSmalls = 100"

definition smallsString :: string where
  "smallsString =
     ''00010203040506070809'' @
     ''10111213141516171819'' @
     ''20212223242526272829'' @
     ''30313233343536373839'' @
     ''40414243444546474849'' @
     ''50515253545556575859'' @
     ''60616263646566676869'' @
     ''70717273747576777879'' @
     ''80818283848586878889'' @
     ''90919293949596979899''"

definition digits :: string where
  "digits = ''0123456789abcdefghijklmnopqrstuvwxyz''"

text \<open>\<^verbatim>\<open>s[a:b]\<close> of a Go string, for \<open>0 \<le> a \<le> b \<le> len(s)\<close> (the only use made of it).\<close>

definition slice :: "string \<Rightarrow> int \<Rightarrow> int \<Rightarrow> string" where
  "slice s a b = take (nat (b - a)) (drop (nat a) s)"

definition small :: "int \<Rightarrow> string" where
  "small i = (if i < 10 then slice digits i (i + 1) else slice smallsString (i * 2) (i * 2 + 2))"

definition sizeIndexString :: "int \<Rightarrow> string" where
  "sizeIndexString sz =
     (if sz = 8 then ''7''
      else if sz = 16 then ''15''
      else if sz = 32 then ''31''
      else ''63'')"

text \<open>
  A panic aborts the operation with a message; the caller may recover from it. It is the
  left summand of the result, carrying the message that \<^verbatim>\<open>validateBitIndex\<close> builds.
\<close>

definition validateBitIndex :: "int \<Rightarrow> BitIndex \<Rightarrow> string + unit" where
  "validateBitIndex sz idx =
     (if idx < 0 \<or> idx \<ge> sz then
        Inl (''index '' @
             (if - nSmalls < idx \<and> idx < nSmalls
              then (if idx < 0 then ''-'' @ small (- idx) else small idx) @ '' ''
              else []) @
             ''out of range [0..'' @ sizeIndexString sz @ '']'')
      else Inr ())"

text \<open>
  The generic helpers, at an arbitrary word type; \<open>sz\<close> is what \<^verbatim>\<open>f.Size()\<close> returns
  at the instance. \<^verbatim>\<open>1 << idx\<close> is \<open>push_bit (nat idx) 1\<close>.
\<close>

definition is_bits :: "int \<Rightarrow> 'a::len word \<Rightarrow> BitIndex \<Rightarrow> string + bool" where
  "is_bits sz f idx =
     (case validateBitIndex sz idx of
        Inl p \<Rightarrow> Inl p
      | Inr u \<Rightarrow> Inr ((f AND push_bit (nat idx) 1) \<noteq> 0))"

definition set_bits :: "int \<Rightarrow> 'a::len word \<Rightarrow> BitIndex \<Rightarrow> bool \<Rightarrow> string + ('a word \<times> bool)" where
  "set_bits sz f idx new =
     (case validateBitIndex sz idx of
        Inl p \<Rightarrow> Inl p
      | Inr u \<Rightarrow>
          (let old = ((f AND push_bit (nat idx) 1) \<noteq> 0)
           in if new then Inr (f OR push_bit (nat idx) 1, old)
              else Inr (f AND NOT (push_bit (nat idx) 1), old)))"

definition toggle :: "int \<Rightarrow> 'a::len word \<Rightarrow> BitIndex \<Rightarrow> string + ('a word \<times> bool)" where
  "toggle sz f idx =
     (case validateBitIndex sz idx of
        Inl p \<Rightarrow> Inl p
      | Inr u \<Rightarrow>
          (let f' = f XOR push_bit (nat idx) 1
           in Inr (f', (f' AND push_bit (nat idx) 1) \<noteq> 0)))"

definition setAll :: "'a::len word \<Rightarrow> 'a word" where
  "setAll f = NOT 0"

definition resetAll :: "'a::len word \<Rightarrow> 'a word" where
  "resetAll f = 0"

text \<open>The loops of \<^verbatim>\<open>anySet\<close> and \<^verbatim>\<open>allSet\<close>: every index is validated, none is skipped.\<close>

fun anySet_loop :: "int \<Rightarrow> 'a::len word \<Rightarrow> BitIndex list \<Rightarrow> bool \<Rightarrow> string + bool" where
  "anySet_loop sz f [] foundSet = Inr foundSet"
| "anySet_loop sz f (bi # rest) foundSet =
     (case validateBitIndex sz bi of
        Inl p \<Rightarrow> Inl p
      | Inr u \<Rightarrow>
          anySet_loop sz f rest
            (if (f AND push_bit (nat bi) 1) \<noteq> 0 then True else foundSet))"

definition anySet :: "int \<Rightarrow> 'a::len word \<Rightarrow> BitIndex list \<Rightarrow> string + bool" where
  "anySet sz f idx =
     (if length idx = 0 then Inr (f \<noteq> 0) else anySet_loop sz f idx False)"

fun allSet_loop :: "int \<Rightarrow> 'a::len word \<Rightarrow> BitIndex list \<Rightarrow> bool \<Rightarrow> string + bool" where
  "allSet_loop sz f [] foundUnset = Inr foundUnset"
| "allSet_loop sz f (bi # rest) foundUnset =
     (case validateBitIndex sz bi of
        Inl p \<Rightarrow> Inl p
      | Inr u \<Rightarrow>
          allSet_loop sz f rest
            (if (f AND push_bit (nat bi) 1) = 0 then False else foundUnset))"

definition allSet :: "int \<Rightarrow> 'a::len word \<Rightarrow> BitIndex list \<Rightarrow> string + bool" where
  "allSet sz f idx =
     (if length idx = 0 then Inr (f = NOT 0) else allSet_loop sz f idx True)"

text \<open>
  The methods. A method with a pointer receiver returns the updated flags beside its
  result. \<open>set_flags\<close> is the generic \<^verbatim>\<open>set\<close> at the four instances; \<^verbatim>\<open>Set\<close>,
  \<^verbatim>\<open>Reset\<close> and \<^verbatim>\<open>SetTo\<close> call it with \<^verbatim>\<open>true\<close>, \<^verbatim>\<open>false\<close> and the given value.
\<close>

fun Is :: "bitflags \<Rightarrow> BitIndex \<Rightarrow> string + bool" where
  "Is (BitFlags8 f) idx = is_bits (Size (BitFlags8 f)) f idx"
| "Is (BitFlags16 f) idx = is_bits (Size (BitFlags16 f)) f idx"
| "Is (BitFlags32 f) idx = is_bits (Size (BitFlags32 f)) f idx"
| "Is (BitFlags64 f) idx = is_bits (Size (BitFlags64 f)) f idx"

fun set_flags :: "bitflags \<Rightarrow> BitIndex \<Rightarrow> bool \<Rightarrow> string + (bitflags \<times> bool)" where
  "set_flags (BitFlags8 f) idx new =
     map_sum id (apfst BitFlags8) (set_bits (Size (BitFlags8 f)) f idx new)"
| "set_flags (BitFlags16 f) idx new =
     map_sum id (apfst BitFlags16) (set_bits (Size (BitFlags16 f)) f idx new)"
| "set_flags (BitFlags32 f) idx new =
     map_sum id (apfst BitFlags32) (set_bits (Size (BitFlags32 f)) f idx new)"
| "set_flags (BitFlags64 f) idx new =
     map_sum id (apfst BitFlags64) (set_bits (Size (BitFlags64 f)) f idx new)"

definition Set :: "bitflags \<Rightarrow> BitIndex \<Rightarrow> string + (bitflags \<times> bool)" where
  "Set f idx = set_flags f idx True"

definition Reset :: "bitflags \<Rightarrow> BitIndex \<Rightarrow> string + (bitflags \<times> bool)" where
  "Reset f idx = set_flags f idx False"

definition SetTo :: "bitflags \<Rightarrow> BitIndex \<Rightarrow> bool \<Rightarrow> string + (bitflags \<times> bool)" where
  "SetTo f idx new = set_flags f idx new"

fun Toggle :: "bitflags \<Rightarrow> BitIndex \<Rightarrow> string + (bitflags \<times> bool)" where
  "Toggle (BitFlags8 f) idx =
     map_sum id (apfst BitFlags8) (toggle (Size (BitFlags8 f)) f idx)"
| "Toggle (BitFlags16 f) idx =
     map_sum id (apfst BitFlags16) (toggle (Size (BitFlags16 f)) f idx)"
| "Toggle (BitFlags32 f) idx =
     map_sum id (apfst BitFlags32) (toggle (Size (BitFlags32 f)) f idx)"
| "Toggle (BitFlags64 f) idx =
     map_sum id (apfst BitFlags64) (toggle (Size (BitFlags64 f)) f idx)"

fun AnyOf :: "bitflags \<Rightarrow> BitIndex list \<Rightarrow> string + bool" where
  "AnyOf (BitFlags8 f) idx = anySet (Size (BitFlags8 f)) f idx"
| "AnyOf (BitFlags16 f) idx = anySet (Size (BitFlags16 f)) f idx"
| "AnyOf (BitFlags32 f) idx = anySet (Size (BitFlags32 f)) f idx"
| "AnyOf (BitFlags64 f) idx = anySet (Size (BitFlags64 f)) f idx"

fun AllOf :: "bitflags \<Rightarrow> BitIndex list \<Rightarrow> string + bool" where
  "AllOf (BitFlags8 f) idx = allSet (Size (BitFlags8 f)) f idx"
| "AllOf (BitFlags16 f) idx = allSet (Size (BitFlags16 f)) f idx"
| "AllOf (BitFlags32 f) idx = allSet (Size (BitFlags32 f)) f idx"
| "AllOf (BitFlags64 f) idx = allSet (Size (BitFlags64 f)) f idx"

section \<open>The generator: sizing\<close>

definition flagSize :: "int \<Rightarrow> int" where
  "flagSize numFields =
     (if 0 < numFields \<and> numFields \<le> 8 then 8
      else if 8 < numFields \<and> numFields \<le> 16 then 16
      else if 16 < numFields \<and> numFields \<le> 32 then 32
      else if 32 < numFields \<and> numFields \<le> 64 then 64
      else numFields)"

section \<open>The generator: names\<close>

text \<open>
  A Go string is a sequence of bytes, and \<^verbatim>\<open>flagName\<close> works on \<^verbatim>\<open>[]byte\<close>: a
  \<^typ>\<open>string\<close> here is that sequence of bytes (a \<^typ>\<open>char\<close> is one byte).
\<close>

definition defaultOutTypeName :: "string \<Rightarrow> string" where
  "defaultOutTypeName sourceTypeName = sourceTypeName @ ''BitFlags''"

text \<open>\<^verbatim>\<open>bytes.HasPrefix\<close>, \<^verbatim>\<open>bytes.TrimPrefix\<close>, \<^verbatim>\<open>bytes.HasSuffix\<close>, \<^verbatim>\<open>bytes.TrimSuffix\<close>.\<close>

definition HasPrefix :: "string \<Rightarrow> string \<Rightarrow> bool" where
  "HasPrefix s prefix \<longleftrightarrow> length s \<ge> length prefix \<and> take (length prefix) s = prefix"

definition TrimPrefix :: "string \<Rightarrow> string \<Rightarrow> string" where
  "TrimPrefix s prefix = (if HasPrefix s prefix then drop (length prefix) s else s)"

definition HasSuffix :: "string \<Rightarrow> string \<Rightarrow> bool" where
  "HasSuffix s suffix \<longleftrightarrow>
     length s \<ge> length suffix \<and> drop (length s - length suffix) s = suffix"

definition TrimSuffix :: "string \<Rightarrow> string \<Rightarrow> string" where
  "TrimSuffix s suffix = (if HasSuffix s suffix then take (length s - length suffix) s else s)"

text \<open>
  \<^verbatim>\<open>unicode.ToUpper\<close> of Go's standard library, on the runes below 256 (the only ones
  \<^verbatim>\<open>rune(fn[0])\<close> can be): below 128 the letters \<^verbatim>\<open>a\<close> to \<^verbatim>\<open>z\<close> move down by 32; from
  128 on the case table of the library applies, whose entries in this range are U+00B5
  (to U+039C), U+00E0 to U+00F6 and U+00F8 to U+00FE (down by 32), and U+00FF (to U+0178).
\<close>

definition ToUpper :: "nat \<Rightarrow> nat" where
  "ToUpper r =
     (if r \<le> 127 then (if 97 \<le> r \<and> r \<le> 122 then r - 32 else r)
      else if r = 181 then 924
      else if (224 \<le> r \<and> r \<le> 246) \<or> (248 \<le> r \<and> r \<le> 254) then r - 32
      else if r = 255 then 376
      else r)"

text \<open>\<^verbatim>\<open>uint8(unicode.ToUpper(rune(b)))\<close>: the conversion to \<^verbatim>\<open>uint8\<close> keeps the low 8 bits.\<close>

definition upperByte :: "char \<Rightarrow> char" where
  "upperByte b = char_of (ToUpper (of_char b) mod 256)"

subsection \<open>What the type checker tells the generator\<close>

text \<open>
  The types of \<^verbatim>\<open>go/types\<close>, as far as the generator looks at them: a basic type with its
  kind, an alias (which \<^verbatim>\<open>types.Unalias\<close> follows to the first type that is not an alias), a
  named (defined) type with its underlying type, a struct type, and any other type.
  \<open>IsBoolean k\<close> is \<^verbatim>\<open>Info()&types.IsBoolean != 0\<close> of a basic type of kind \<open>k\<close>: it
  holds of \<^verbatim>\<open>bool\<close> and of the untyped boolean.
\<close>

datatype basic_kind =
  Bool_kind | Int_kind | String_kind | Float64_kind | UntypedBool_kind | UntypedNil_kind

fun IsBoolean :: "basic_kind \<Rightarrow> bool" where
  "IsBoolean Bool_kind = True"
| "IsBoolean UntypedBool_kind = True"
| "IsBoolean k = False"

datatype go_type =
    Basic basic_kind
  | Alias string go_type
  | Named string go_type
  | Struct "(string \<times> go_type) list"
  | OtherType

fun Unalias :: "go_type \<Rightarrow> go_type" where
  "Unalias (Alias n t) = Unalias t"
| "Unalias t = t"

fun Underlying :: "go_type \<Rightarrow> go_type" where
  "Underlying (Alias n t) = Underlying t"
| "Underlying (Named n t) = Underlying t"
| "Underlying t = t"

text \<open>A \<^verbatim>\<open>types.Object\<close>: what \<^verbatim>\<open>Name()\<close> and \<^verbatim>\<open>Type()\<close> return.\<close>

record object =
  obj_Name :: string
  obj_Type :: go_type

subsection \<open>Failures\<close>

text \<open>
  The ways a run of the generator ends early: \<^verbatim>\<open>log.Fatalf\<close> with its format string and
  arguments (it prints the message and exits with status 1), and a run-time panic.
\<close>

datatype arg = S string | I int | T go_type

datatype failure = Fatal string "arg list" | Panic string

text \<open>
  \<^verbatim>\<open>fn[0] = ...\<close> on an empty slice is the run-time panic "index out of range".
\<close>

definition flagName :: "string \<Rightarrow> string \<Rightarrow> string \<Rightarrow> failure + string" where
  "flagName fieldName trimPrefix trimSuffix =
     (let fn = fieldName;
          fn = (if length trimPrefix > 0 then TrimPrefix fn trimPrefix else fn);
          fn = (if length trimSuffix > 0 then TrimSuffix fn trimSuffix else fn)
      in case fn of
           [] \<Rightarrow> Inl (Panic ''runtime error: index out of range [0] with length 0'')
         | b # bs \<Rightarrow> Inr (upperByte b # bs))"

section \<open>The generator: syntax trees\<close>

text \<open>
  An \<^verbatim>\<open>*ast.Ident\<close> is a pointer, and the type checker's \<^verbatim>\<open>Defs\<close> map is keyed by the
  pointer: two identifiers with the same name are different keys. An identifier is its
  position in the source together with its name.
\<close>

datatype ident = Ident (ident_pos: nat) (Name: string)

text \<open>
  Type expressions: a struct type with its field list (an \<^verbatim>\<open>*ast.Field\<close> has the list of
  its names, empty for an embedded field, and its type expression), or anything else.
\<close>

datatype expr = StructType "field list" | OtherExpr
  and field = AstField (Names: "ident list") (field_Type: expr)

record type_spec =
  spec_Name :: ident
  spec_Type :: expr

text \<open>
  The nodes \<^verbatim>\<open>ast.Inspect\<close> walks. \<^verbatim>\<open>genStructDecl\<close> tells two kinds apart: a
  \<^verbatim>\<open>*ast.GenDecl\<close> whose token is \<^verbatim>\<open>TYPE\<close>, with its type specs (\<open>TypeDecl\<close>), and every
  other node (the file itself, a function declaration, a statement, a declaration of
  constants, variables or imports, ...) with its children in the order of the walk
  (\<open>OtherNode\<close>). The children of a type declaration are not represented: the walk never
  enters them, because \<^verbatim>\<open>genStructDecl\<close> returns \<^verbatim>\<open>false\<close> there.
\<close>

datatype node = TypeDecl "type_spec list" | OtherNode "node list"

text \<open>
  \<^verbatim>\<open>ast.Inspect(node, f)\<close> calls \<open>f\<close> on the node and, when \<open>f\<close> returns \<^verbatim>\<open>true\<close>, walks the
  children in order (the closing call \<^verbatim>\<open>f(nil)\<close> does nothing in \<^verbatim>\<open>genStructDecl\<close>). The
  visitor threads its state and may end the run.
\<close>

fun Inspect :: "(node \<Rightarrow> 's \<Rightarrow> failure + ('s \<times> bool)) \<Rightarrow> node \<Rightarrow> 's \<Rightarrow> failure + 's"
  and InspectAll :: "(node \<Rightarrow> 's \<Rightarrow> failure + ('s \<times> bool)) \<Rightarrow> node list \<Rightarrow> 's \<Rightarrow> failure + 's"
where
  "Inspect v (OtherNode cs) s =
     (case v (OtherNode cs) s of
        Inl e \<Rightarrow> Inl e
      | Inr (s', descend) \<Rightarrow> if descend then InspectAll v cs s' else Inr s')"
| "Inspect v (TypeDecl specs) s =
     (case v (TypeDecl specs) s of
        Inl e \<Rightarrow> Inl e
      | Inr (s', descend) \<Rightarrow> Inr s')"
| "InspectAll v [] s = Inr s"
| "InspectAll v (c # cs) s =
     (case Inspect v c s of
        Inl e \<Rightarrow> Inl e
      | Inr s' \<Rightarrow> InspectAll v cs s')"

section \<open>The generator: resolving a type\<close>

record flagValue =
  Field :: string
  Flag :: string

text \<open>
  A \<^verbatim>\<open>File\<close>: the parsed file and the state of the walk (a nil slice and an empty slice
  are both \<open>[]\<close>: the source only takes their length). The package a file points to is
  passed beside it.
\<close>

record File =
  file_ast :: node
  sourceTypeName :: string
  foundSourceType :: "object option"
  flagValues :: "flagValue list"
  flagsSize :: int

record Package =
  pkg_name :: string
  pkg_defs :: "ident \<Rightarrow> object option"
  pkg_files :: "File list"
  hasTestFiles :: bool
  trimPrefix :: string
  trimSuffix :: string
  pkg_flagsSize :: int

definition isValidStructFile :: "File \<Rightarrow> bool" where
  "isValidStructFile f \<longleftrightarrow> length (flagValues f) \<noteq> 0"

text \<open>The loop over the names of one field declaration.\<close>

fun genFieldNames ::
  "Package \<Rightarrow> string \<Rightarrow> ident list \<Rightarrow> flagValue list \<Rightarrow> failure + flagValue list" where
  "genFieldNames pkg tspecName [] fvs = Inr fvs"
| "genFieldNames pkg tspecName (name # rest) fvs =
     (if Name name = ''_'' then genFieldNames pkg tspecName rest fvs
      else case pkg_defs pkg name of
        None \<Rightarrow>
          Inl (Fatal ''error: no field definition found for field %s from type %s''
                 [S (Name name), S tspecName])
      | Some obj \<Rightarrow>
          (case Unalias (obj_Type obj) of
             Basic k \<Rightarrow>
               if \<not> IsBoolean k then genFieldNames pkg tspecName rest fvs
               else (case flagName (Name name) (trimPrefix pkg) (trimSuffix pkg) of
                       Inl e \<Rightarrow> Inl e
                     | Inr fl \<Rightarrow>
                         genFieldNames pkg tspecName rest
                           (fvs @ [\<lparr>Field = Name name, Flag = fl\<rparr>]))
           | actualType \<Rightarrow> genFieldNames pkg tspecName rest fvs))"

text \<open>The loop over the field declarations of the struct type.\<close>

fun genFields ::
  "Package \<Rightarrow> string \<Rightarrow> field list \<Rightarrow> flagValue list \<Rightarrow> failure + flagValue list" where
  "genFields pkg tspecName [] fvs = Inr fvs"
| "genFields pkg tspecName (fld # rest) fvs =
     (if length (Names fld) = 0 then genFields pkg tspecName rest fvs
      else case genFieldNames pkg tspecName (Names fld) fvs of
        Inl e \<Rightarrow> Inl e
      | Inr fvs' \<Rightarrow> genFields pkg tspecName rest fvs')"

text \<open>The loop over the type specs of one \<^verbatim>\<open>type\<close> declaration.\<close>

fun genSpecs :: "Package \<Rightarrow> type_spec list \<Rightarrow> File \<Rightarrow> failure + File" where
  "genSpecs pkg [] f = Inr f"
| "genSpecs pkg (tspec # rest) f =
     (if sourceTypeName f \<noteq> Name (spec_Name tspec) then genSpecs pkg rest f
      else case pkg_defs pkg (spec_Name tspec) of
        None \<Rightarrow>
          Inl (Fatal ''error: no type definition found for type %s''
                 [S (Name (spec_Name tspec))])
      | Some foundSourceType' \<Rightarrow>
          (let f = f\<lparr>foundSourceType := Some foundSourceType'\<rparr>
           in case spec_Type tspec of
                StructType flds \<Rightarrow>
                  (case genFields pkg (Name (spec_Name tspec)) flds [] of
                     Inl e \<Rightarrow> Inl e
                   | Inr fvs \<Rightarrow> genSpecs pkg rest (f\<lparr>flagValues := fvs\<rparr>))
              | OtherExpr \<Rightarrow> genSpecs pkg rest f))"

fun genStructDecl :: "Package \<Rightarrow> node \<Rightarrow> File \<Rightarrow> failure + (File \<times> bool)" where
  "genStructDecl pkg (OtherNode cs) f = Inr (f, True)"
| "genStructDecl pkg (TypeDecl specs) f =
     (case genSpecs pkg specs f of
        Inl e \<Rightarrow> Inl e
      | Inr f' \<Rightarrow> Inr (f'\<lparr>flagsSize := flagSize (int (length (flagValues f')))\<rparr>, False))"

fun findStructTypeFile_loop :: "Package \<Rightarrow> File list \<Rightarrow> string \<Rightarrow> failure + File option" where
  "findStructTypeFile_loop pkg [] sourceTypeName' = Inr None"
| "findStructTypeFile_loop pkg (file # rest) sourceTypeName' =
     (let file = file\<lparr>sourceTypeName := sourceTypeName', foundSourceType := None,
                       flagValues := [], flagsSize := 0\<rparr>
      in case Inspect (genStructDecl pkg) (file_ast file) file of
           Inl e \<Rightarrow> Inl e
         | Inr file' \<Rightarrow>
             if foundSourceType file' \<noteq> None then Inr (Some file')
             else findStructTypeFile_loop pkg rest sourceTypeName')"

definition findStructTypeFile :: "Package \<Rightarrow> string \<Rightarrow> failure + File option" where
  "findStructTypeFile pkg sourceTypeName' =
     findStructTypeFile_loop pkg (pkg_files pkg) sourceTypeName'"

section \<open>The generator: emitting\<close>

text \<open>
  The generator's buffer receives the header template and then one body template per
  type, each executed on its input. What the templates print is not part of this
  development: the buffer is the sequence of template inputs, the header's reduced to the
  package name (the command line it also prints takes part in no decision).
\<close>

record templateTypeInput =
  SourceTypeName :: string
  OutTypeName :: string
  OutTypeSize :: int
  OutInterfaceName :: string
  FlagValues :: "flagValue list"

datatype chunk = Header string | Body templateTypeInput

record Generator =
  buf :: "chunk list"
  gen_pkg :: Package

definition generateHeader :: "Generator \<Rightarrow> Generator" where
  "generateHeader g = g\<lparr>buf := buf g @ [Header (pkg_name (gen_pkg g))]\<rparr>"

definition generateForStruct ::
  "Generator \<Rightarrow> string \<Rightarrow> string \<Rightarrow> File \<Rightarrow> failure + Generator" where
  "generateForStruct g sourceTypeName' outTypeName structFile =
     (let sz = flagsSize structFile
      in if sz > 64 then
           Inl (Fatal
             ''error: type %s contains %d bool fields which is more than supported; maximum supported is 64''
             [S sourceTypeName', I sz])
         else if pkg_flagsSize (gen_pkg g) \<noteq> 0 \<and> pkg_flagsSize (gen_pkg g) < sz then
           Inl (Fatal
             ''error: type %s flags size is too small; required at least %d, requested %d''
             [S sourceTypeName', I sz, I (pkg_flagsSize (gen_pkg g))])
         else
           (let sz = (if pkg_flagsSize (gen_pkg g) \<noteq> 0 then pkg_flagsSize (gen_pkg g) else sz)
            in Inr (g\<lparr>buf := buf g @
                     [Body \<lparr>SourceTypeName = sourceTypeName',
                            OutTypeName = outTypeName,
                            OutTypeSize = sz,
                            OutInterfaceName = outTypeName @ ''Interface'',
                            FlagValues = flagValues structFile\<rparr>]\<rparr>)))"

text \<open>
  The name of the written file: the one given with \<^verbatim>\<open>-outFile\<close>, or
  \<^verbatim>\<open>filepath.Join(outDir, defaultFileName(pkg, t))\<close>, kept as its three parts: the
  directory, the type name that \<^verbatim>\<open>strings.ToLower\<close> is applied to, and the suffix after
  the underscore.
\<close>

datatype out_name = OutFile string | DefaultIn string string string

definition defaultFileName :: "Package \<Rightarrow> string \<Rightarrow> string \<times> string" where
  "defaultFileName pkg sourceTypeName' =
     (sourceTypeName', if hasTestFiles pkg then ''flagged_test.go'' else ''flagged.go'')"

record written =
  w_name :: out_name
  w_src :: "chunk list"

text \<open>The validated command line (\<^verbatim>\<open>input\<close>), as far as the loop of \<^verbatim>\<open>main\<close> reads it.\<close>

record input =
  sourceTypeNames :: "string list"
  outTypeNames :: "string list"
  outFile :: string
  outDir :: string

text \<open>
  The comparison \<^verbatim>\<open>main\<close> sorts the packages with. \<^verbatim>\<open>sort.Slice\<close> leaves the packages
  in an order in which no package is less than one before it; which of several such orders
  is not specified (the sort is not stable).
\<close>

definition less_pkg :: "Package \<Rightarrow> Package \<Rightarrow> bool" where
  "less_pkg pi pj =
     (let iTest = HasSuffix (pkg_name pi) ''_test'';
          jTest = HasSuffix (pkg_name pj) ''_test''
      in if iTest \<noteq> jTest then \<not> iTest
         else length (pkg_files pi) < length (pkg_files pj))"

definition sorted_pkgs :: "Package list \<Rightarrow> bool" where
  "sorted_pkgs pkgs \<longleftrightarrow> sorted_wrt (\<lambda>a b. \<not> less_pkg b a) pkgs"

text \<open>
  The loop over \<^verbatim>\<open>in.sourceTypeNames\<close> for one package, with its index \<open>idx\<close>. Indexing
  \<^verbatim>\<open>in.outTypeNames\<close> beyond its length is a run-time panic.
\<close>

fun typesLoop ::
  "string list \<Rightarrow> Package \<Rightarrow> nat \<Rightarrow> string list \<Rightarrow> Generator \<Rightarrow> string list \<Rightarrow> string list \<Rightarrow>
   failure + (Generator \<times> string list \<times> string list)" where
  "typesLoop outTypeNames' pkg idx [] g foundTypes remainingTypes =
     Inr (g, foundTypes, remainingTypes)"
| "typesLoop outTypeNames' pkg idx (sourceTypeName' # rest) g foundTypes remainingTypes =
     (if length outTypeNames' > 0 \<and> \<not> idx < length outTypeNames' then
        Inl (Panic ''runtime error: index out of range'')
      else
        (let outTypeName = (if length outTypeNames' > 0
                            then (if outTypeNames' ! idx = ''_'' then [] else outTypeNames' ! idx)
                            else []);
             outTypeName = (if length outTypeName = 0 then defaultOutTypeName sourceTypeName'
                            else outTypeName)
         in case findStructTypeFile pkg sourceTypeName' of
              Inl e \<Rightarrow> Inl e
            | Inr None \<Rightarrow>
                typesLoop outTypeNames' pkg (idx + 1) rest g foundTypes
                  (remainingTypes @ [sourceTypeName'])
            | Inr (Some file) \<Rightarrow>
                if \<not> isValidStructFile file then
                  Inl (Fatal
                    (''error: found unsupported type %s (%s) for name %s in package %s.'' @
                     [CHR 0x0A, CHR 0x09] @
                     ''supported types are struct types with bool fields.'')
                    [S (obj_Name (the (foundSourceType file))),
                     T (Underlying (obj_Type (the (foundSourceType file)))),
                     S sourceTypeName', S (pkg_name pkg)])
                else
                  (case generateForStruct g sourceTypeName' outTypeName file of
                     Inl e \<Rightarrow> Inl e
                   | Inr g' \<Rightarrow>
                       typesLoop outTypeNames' pkg (idx + 1) rest g'
                         (foundTypes @ [sourceTypeName']) remainingTypes)))"

text \<open>
  The body of the loop over the packages: \<open>None\<close> beside the input when the package is
  skipped (\<^verbatim>\<open>continue\<close>), else the file written and the input with the remaining types.
  \<^verbatim>\<open>g.format()\<close> is applied to the buffer before it is written; the written content is
  kept as the buffer. A failure of \<^verbatim>\<open>os.WriteFile\<close> is not modelled.
\<close>

definition processPackage :: "input \<Rightarrow> Package \<Rightarrow> failure + (input \<times> written option)" where
  "processPackage inp pkg =
     (let g = generateHeader \<lparr>buf = [], gen_pkg = pkg\<rparr>
      in case typesLoop (outTypeNames inp) pkg 0 (sourceTypeNames inp) g [] [] of
           Inl e \<Rightarrow> Inl e
         | Inr (g, foundTypes, remainingTypes) \<Rightarrow>
             (case foundTypes of
                [] \<Rightarrow> Inr (inp, None)
              | first # others \<Rightarrow>
                  if length remainingTypes > 0 \<and> outFile inp \<noteq> [] then
                    Inl (Fatal
                      ''error: cannot write to single file (-outFile=%q) when matching types are found in multiple packages''
                      [S (outFile inp)])
                  else
                    Inr (inp\<lparr>sourceTypeNames := remainingTypes\<rparr>,
                         Some \<lparr>w_name =
                                 (if outFile inp = [] then
                                    DefaultIn (outDir inp) (fst (defaultFileName pkg first))
                                      (snd (defaultFileName pkg first))
                                  else OutFile (outFile inp)),
                               w_src = buf g\<rparr>)))"

text \<open>
  The loop over the (sorted) packages. It returns the files written so far, in order, and
  either the failure that ended the run or the input as the loop left it.
\<close>

fun mainLoop :: "input \<Rightarrow> Package list \<Rightarrow> written list \<Rightarrow> written list \<times> (failure + input)" where
  "mainLoop inp [] ws = (ws, Inr inp)"
| "mainLoop inp (pkg # pkgs) ws =
     (case processPackage inp pkg of
        Inl e \<Rightarrow> (ws, Inl e)
      | Inr (inp', None) \<Rightarrow> mainLoop inp' pkgs ws
      | Inr (inp', Some w) \<Rightarrow> mainLoop inp' pkgs (ws @ [w]))"

fun Join :: "string list \<Rightarrow> string \<Rightarrow> string" where
  "Join [] sep = []"
| "Join [x] sep = x"
| "Join (x # y # ys) sep = x @ sep @ Join (y # ys) sep"

text \<open>
  \<^verbatim>\<open>main\<close> from the sorted packages on: the files written, and the failure that ended
  the run, if any.
\<close>

definition main :: "input \<Rightarrow> Package list \<Rightarrow> written list \<times> failure option" where
  "main inp pkgs =
     (case mainLoop inp pkgs [] of
        (ws, Inl e) \<Rightarrow> (ws, Some e)
      | (ws, Inr inp') \<Rightarrow>
          if length (sourceTypeNames inp') > 0 then
            (ws, Some (Fatal ''error: no matching types found for names: %s''
                         [S (Join (sourceTypeNames inp') '','')]))
          else (ws, None))"

section \<open>Notions used to state the properties\<close>

text \<open>
  The definitions of this section are not taken from the source. They say, in the words
  of the specification, what the functions above are compared with.
\<close>

subsection \<open>Field candidates\<close>

text \<open>
  A field name qualifies when it is not the blank identifier and the type the type checker
  records for it is, aliases resolved, a basic type that is boolean. (An embedded field has
  no name at all.)
\<close>

definition qualifies :: "Package \<Rightarrow> ident \<Rightarrow> bool" where
  "qualifies pkg name \<longleftrightarrow>
     Name name \<noteq> ''_'' \<and>
     (case pkg_defs pkg name of
        None \<Rightarrow> False
      | Some obj \<Rightarrow> (case Unalias (obj_Type obj) of Basic k \<Rightarrow> IsBoolean k | t \<Rightarrow> False))"

text \<open>The field name without the configured prefix and then without the configured suffix.\<close>

definition trimmed :: "Package \<Rightarrow> string \<Rightarrow> string" where
  "trimmed pkg fieldName = TrimSuffix (TrimPrefix fieldName (trimPrefix pkg)) (trimSuffix pkg)"

definition capitalized :: "string \<Rightarrow> string" where
  "capitalized s = (case s of [] \<Rightarrow> [] | b # bs \<Rightarrow> upperByte b # bs)"

definition candidate :: "Package \<Rightarrow> ident \<Rightarrow> flagValue" where
  "candidate pkg name = \<lparr>Field = Name name, Flag = capitalized (trimmed pkg (Name name))\<rparr>"

text \<open>
  The candidates of a field list: the qualifying names of its own fields, in the order of
  the declaration. The type expressions of the fields play no part.
\<close>

definition candidates :: "Package \<Rightarrow> field list \<Rightarrow> flagValue list" where
  "candidates pkg flds = map (candidate pkg) (filter (qualifies pkg) (concat (map Names flds)))"

subsection \<open>Declarations of a name\<close>

text \<open>The type specs the walk of a file comes across, in its order.\<close>

fun typeSpecs :: "node \<Rightarrow> type_spec list" where
  "typeSpecs (TypeDecl specs) = specs"
| "typeSpecs (OtherNode cs) = concat (map typeSpecs cs)"

definition matchingSpecs :: "node \<Rightarrow> string \<Rightarrow> type_spec list" where
  "matchingSpecs n t = filter (\<lambda>tspec. Name (spec_Name tspec) = t) (typeSpecs n)"


text \<open>
  Two states of the walk of a file that differ at most in \<open>flagsSize\<close>, and a state whose
  \<open>flagsSize\<close> is the one computed from its flag values.
\<close>

definition eqv :: "File \<Rightarrow> File \<Rightarrow> bool" where
  "eqv f g \<longleftrightarrow>
     file_ast f = file_ast g \<and> sourceTypeName f = sourceTypeName g \<and>
     foundSourceType f = foundSourceType g \<and> flagValues f = flagValues g"

definition sized :: "File \<Rightarrow> bool" where
  "sized f \<longleftrightarrow> flagsSize f = flagSize (int (length (flagValues f)))"

text \<open>The state \<^verbatim>\<open>findStructTypeFile\<close> starts the walk of a file with.\<close>

definition reset :: "File \<Rightarrow> string \<Rightarrow> File" where
  "reset fl t =
     fl\<lparr>sourceTypeName := t, foundSourceType := None, flagValues := [], flagsSize := 0\<rparr>"

subsection \<open>What a run emits\<close>

text \<open>The source types a buffer holds a body for, and those of all files written.\<close>

fun emitted :: "chunk list \<Rightarrow> string list" where
  "emitted [] = []"
| "emitted (Header n # cs) = emitted cs"
| "emitted (Body t # cs) = SourceTypeName t # emitted cs"

definition allEmitted :: "written list \<Rightarrow> string list" where
  "allEmitted ws = concat (map (\<lambda>w. emitted (w_src w)) ws)"

text \<open>The pairs of source type and generated type name a buffer holds.\<close>

fun outNames :: "chunk list \<Rightarrow> (string \<times> string) list" where
  "outNames [] = []"
| "outNames (Header n # cs) = outNames cs"
| "outNames (Body t # cs) = (SourceTypeName t, OutTypeName t) # outNames cs"

text \<open>
  The name of the generated type as the loop over the types works it out at index \<open>idx\<close>,
  and the failure it ends the run with at a file that has no flag values.
\<close>

definition outNameFor :: "string list \<Rightarrow> nat \<Rightarrow> string \<Rightarrow> string" where
  "outNameFor outs idx t =
     (if outs \<noteq> [] \<and> outs ! idx \<noteq> ''_'' \<and> outs ! idx \<noteq> [] then outs ! idx
      else defaultOutTypeName t)"

definition unsupported :: "Package \<Rightarrow> string \<Rightarrow> File \<Rightarrow> failure" where
  "unsupported pkg t f =
     Fatal
       (''error: found unsupported type %s (%s) for name %s in package %s.'' @
        [CHR 0x0A, CHR 0x09] @
        ''supported types are struct types with bool fields.'')
       [S (obj_Name (the (foundSourceType f))),
        T (Underlying (obj_Type (the (foundSourceType f)))),
        S t, S (pkg_name pkg)]"

text \<open>
  A resolved file that the loop over the types does not get past: it has no flag values,
  more than 64 of them, or fewer bits are requested than it needs.
\<close>

definition rejected :: "Package \<Rightarrow> File \<Rightarrow> bool" where
  "rejected pkg f \<longleftrightarrow>
     \<not> isValidStructFile f \<or> flagsSize f > 64 \<or>
     (pkg_flagsSize pkg \<noteq> 0 \<and> pkg_flagsSize pkg < flagsSize f)"

text \<open>
  A requested type at which the loop over the types ends the run: the search for it
  fails, or it finds a file that is rejected.
\<close>

definition stops :: "Package \<Rightarrow> string \<Rightarrow> bool" where
  "stops pkg t \<longleftrightarrow>
     (case findStructTypeFile pkg t of
        Inl e \<Rightarrow> True
      | Inr None \<Rightarrow> False
      | Inr (Some f) \<Rightarrow> rejected pkg f)"

section \<open>Example inputs\<close>

text \<open>A parsed file before any walk.\<close>

definition newFile :: "node \<Rightarrow> File" where
  "newFile n =
     \<lparr>file_ast = n, sourceTypeName = [], foundSourceType = None, flagValues = [],
      flagsSize = 0\<rparr>"

subsection \<open>The struct of \<^verbatim>\<open>testdata/mix_options\<close>\<close>

text \<open>
  \<^verbatim>\<open>type MixOptions struct { Flag1 bool; Field2 int; Field3 string;
  Field4 struct { Flag2 bool }; Flag2 bool }\<close>
\<close>

definition mixFields :: "field list" where
  "mixFields =
     [AstField [Ident 2 ''Flag1''] OtherExpr,
      AstField [Ident 3 ''Field2''] OtherExpr,
      AstField [Ident 4 ''Field3''] OtherExpr,
      AstField [Ident 5 ''Field4''] (StructType [AstField [Ident 6 ''Flag2''] OtherExpr]),
      AstField [Ident 7 ''Flag2''] OtherExpr]"

definition mixSpec :: type_spec where
  "mixSpec = \<lparr>spec_Name = Ident 1 ''MixOptions'', spec_Type = StructType mixFields\<rparr>"

definition mixObj :: object where
  "mixObj =
     \<lparr>obj_Name = ''MixOptions'',
      obj_Type = Named ''MixOptions''
        (Struct [(''Flag1'', Basic Bool_kind), (''Field2'', Basic Int_kind),
                 (''Field3'', Basic String_kind),
                 (''Field4'', Struct [(''Flag2'', Basic Bool_kind)]),
                 (''Flag2'', Basic Bool_kind)])\<rparr>"

definition mixDefs :: "ident \<Rightarrow> object option" where
  "mixDefs = map_of
     [(Ident 1 ''MixOptions'', mixObj),
      (Ident 2 ''Flag1'', \<lparr>obj_Name = ''Flag1'', obj_Type = Basic Bool_kind\<rparr>),
      (Ident 3 ''Field2'', \<lparr>obj_Name = ''Field2'', obj_Type = Basic Int_kind\<rparr>),
      (Ident 4 ''Field3'', \<lparr>obj_Name = ''Field3'', obj_Type = Basic String_kind\<rparr>),
      (Ident 5 ''Field4'',
         \<lparr>obj_Name = ''Field4'', obj_Type = Struct [(''Flag2'', Basic Bool_kind)]\<rparr>),
      (Ident 6 ''Flag2'', \<lparr>obj_Name = ''Flag2'', obj_Type = Basic Bool_kind\<rparr>),
      (Ident 7 ''Flag2'', \<lparr>obj_Name = ''Flag2'', obj_Type = Basic Bool_kind\<rparr>)]"

definition mixPkg :: Package where
  "mixPkg =
     \<lparr>pkg_name = ''mix_options'', pkg_defs = mixDefs,
      pkg_files = [newFile (OtherNode [TypeDecl [mixSpec]])],
      hasTestFiles = False, trimPrefix = [], trimSuffix = [], pkg_flagsSize = 0\<rparr>"

subsection \<open>A struct of \<open>n\<close> boolean fields\<close>

text \<open>
  \<^verbatim>\<open>type Options struct { Flag00 bool; Flag01 bool; ... }\<close> with \<open>n\<close> fields (at most
  100), in a package asked for \<open>s\<close> bits (\<^verbatim>\<open>-size=s\<close>).
\<close>

definition flagIdent :: "nat \<Rightarrow> ident" where
  "flagIdent i = Ident (Suc i) (''Flag'' @ [char_of (48 + i div 10), char_of (48 + i mod 10)])"

definition boolFields :: "nat \<Rightarrow> field list" where
  "boolFields n = map (\<lambda>i. AstField [flagIdent i] OtherExpr) [0..<n]"

definition optionsSpec :: "nat \<Rightarrow> type_spec" where
  "optionsSpec n = \<lparr>spec_Name = Ident 0 ''Options'', spec_Type = StructType (boolFields n)\<rparr>"

definition optionsObj :: "nat \<Rightarrow> object" where
  "optionsObj n =
     \<lparr>obj_Name = ''Options'',
      obj_Type = Named ''Options''
        (Struct (map (\<lambda>i. (Name (flagIdent i), Basic Bool_kind)) [0..<n]))\<rparr>"

definition optionsDefs :: "nat \<Rightarrow> ident \<Rightarrow> object option" where
  "optionsDefs n name =
     (if ident_pos name = 0 then Some (optionsObj n)
      else Some \<lparr>obj_Name = Name name, obj_Type = Basic Bool_kind\<rparr>)"

definition optionsFile :: "nat \<Rightarrow> File" where
  "optionsFile n = newFile (OtherNode [TypeDecl [optionsSpec n]])"

definition optionsPkg :: "nat \<Rightarrow> int \<Rightarrow> Package" where
  "optionsPkg n s =
     \<lparr>pkg_name = ''options'', pkg_defs = optionsDefs n, pkg_files = [optionsFile n],
      hasTestFiles = False, trimPrefix = [], trimSuffix = [], pkg_flagsSize = s\<rparr>"

definition optionsInput :: input where
  "optionsInput =
     \<lparr>sourceTypeNames = [''Options''], outTypeNames = [], outFile = [], outDir = ''.''\<rparr>"

subsection \<open>One package in its three variants\<close>

text \<open>
  Package \<^verbatim>\<open>x\<close> declares \<^verbatim>\<open>type A struct { On bool }\<close> in \<^verbatim>\<open>a.go\<close>; its test file
  \<^verbatim>\<open>b_test.go\<close> declares \<^verbatim>\<open>type B struct { Up bool }\<close>; the external test package
  \<^verbatim>\<open>x_test\<close> declares an \<^verbatim>\<open>A\<close> of its own, \<^verbatim>\<open>type A struct { On bool }\<close>.
\<close>

definition declA :: node where
  "declA = OtherNode [TypeDecl
     [\<lparr>spec_Name = Ident 10 ''A'',
       spec_Type = StructType [AstField [Ident 11 ''On''] OtherExpr]\<rparr>]]"

definition declB :: node where
  "declB = OtherNode [TypeDecl
     [\<lparr>spec_Name = Ident 20 ''B'',
       spec_Type = StructType [AstField [Ident 21 ''Up''] OtherExpr]\<rparr>]]"

definition declA' :: node where
  "declA' = OtherNode [TypeDecl
     [\<lparr>spec_Name = Ident 30 ''A'',
       spec_Type = StructType [AstField [Ident 31 ''On''] OtherExpr]\<rparr>]]"

definition xDefs :: "ident \<Rightarrow> object option" where
  "xDefs = map_of
     [(Ident 10 ''A'',
         \<lparr>obj_Name = ''A'', obj_Type = Named ''A'' (Struct [(''On'', Basic Bool_kind)])\<rparr>),
      (Ident 11 ''On'', \<lparr>obj_Name = ''On'', obj_Type = Basic Bool_kind\<rparr>),
      (Ident 20 ''B'',
         \<lparr>obj_Name = ''B'', obj_Type = Named ''B'' (Struct [(''Up'', Basic Bool_kind)])\<rparr>),
      (Ident 21 ''Up'', \<lparr>obj_Name = ''Up'', obj_Type = Basic Bool_kind\<rparr>),
      (Ident 30 ''A'',
         \<lparr>obj_Name = ''A'', obj_Type = Named ''A'' (Struct [(''On'', Basic Bool_kind)])\<rparr>),
      (Ident 31 ''On'', \<lparr>obj_Name = ''On'', obj_Type = Basic Bool_kind\<rparr>)]"

definition xPlain :: Package where
  "xPlain =
     \<lparr>pkg_name = ''x'', pkg_defs = xDefs, pkg_files = [newFile declA],
      hasTestFiles = False, trimPrefix = [], trimSuffix = [], pkg_flagsSize = 0\<rparr>"

definition xWithTests :: Package where
  "xWithTests =
     \<lparr>pkg_name = ''x'', pkg_defs = xDefs, pkg_files = [newFile declA, newFile declB],
      hasTestFiles = True, trimPrefix = [], trimSuffix = [], pkg_flagsSize = 0\<rparr>"

definition xExternal :: Package where
  "xExternal =
     \<lparr>pkg_name = ''x_test'', pkg_defs = xDefs, pkg_files = [newFile declA'],
      hasTestFiles = True, trimPrefix = [], trimSuffix = [], pkg_flagsSize = 0\<rparr>"


definition abxyInput :: input where
  "abxyInput =
     \<lparr>sourceTypeNames = [''A'', ''B''], outTypeNames = [''X'', ''Y''], outFile = [],
      outDir = ''.''\<rparr>"



subsection \<open>A name declared twice in one file\<close>

text \<open>
  \<^verbatim>\<open>type T int\<close> at package level, and \<^verbatim>\<open>func f() { type T struct { A bool } }\<close>: the
  walk enters the function body and finds the second declaration there.
\<close>

definition intSpec :: type_spec where
  "intSpec = \<lparr>spec_Name = Ident 40 ''T'', spec_Type = OtherExpr\<rparr>"

definition localSpec :: type_spec where
  "localSpec =
     \<lparr>spec_Name = Ident 41 ''T'',
      spec_Type = StructType [AstField [Ident 42 ''A''] OtherExpr]\<rparr>"

definition shadowAst :: node where
  "shadowAst =
     OtherNode [TypeDecl [intSpec],
                OtherNode [OtherNode [OtherNode [TypeDecl [localSpec]]]]]"

definition intObj :: object where
  "intObj = \<lparr>obj_Name = ''T'', obj_Type = Named ''T'' (Basic Int_kind)\<rparr>"

definition shadowDefs :: "ident \<Rightarrow> object option" where
  "shadowDefs = map_of
     [(Ident 40 ''T'', intObj),
      (Ident 41 ''T'',
         \<lparr>obj_Name = ''T'', obj_Type = Named ''T'' (Struct [(''A'', Basic Bool_kind)])\<rparr>),
      (Ident 42 ''A'', \<lparr>obj_Name = ''A'', obj_Type = Basic Bool_kind\<rparr>)]"

definition shadowPkg :: Package where
  "shadowPkg =
     \<lparr>pkg_name = ''p'', pkg_defs = shadowDefs, pkg_files = [newFile shadowAst],
      hasTestFiles = False, trimPrefix = [], trimSuffix = [], pkg_flagsSize = 0\<rparr>"

text \<open>The same package with the declaration \<^verbatim>\<open>type T int\<close> alone.\<close>

definition intFile :: File where
  "intFile = newFile (OtherNode [TypeDecl [intSpec]])"

definition intPkg :: Package where
  "intPkg =
     \<lparr>pkg_name = ''p'', pkg_defs = shadowDefs, pkg_files = [intFile],
      hasTestFiles = False, trimPrefix = [], trimSuffix = [], pkg_flagsSize = 0\<rparr>"

definition tInput :: input where
  "tInput = \<lparr>sourceTypeNames = [''T''], outTypeNames = [], outFile = [], outDir = ''.''\<rparr>"

subsection \<open>A field named like the prefix to trim\<close>

text \<open>\<^verbatim>\<open>type T struct { opt bool }\<close> with \<^verbatim>\<open>-trimprefix=opt\<close>.\<close>

definition optFields :: "field list" where
  "optFields = [AstField [Ident 51 ''opt''] OtherExpr]"

definition optSpec :: type_spec where
  "optSpec = \<lparr>spec_Name = Ident 50 ''T'', spec_Type = StructType optFields\<rparr>"

definition optObj :: object where
  "optObj = \<lparr>obj_Name = ''T'', obj_Type = Named ''T'' (Struct [(''opt'', Basic Bool_kind)])\<rparr>"

definition optDefs :: "ident \<Rightarrow> object option" where
  "optDefs = map_of
     [(Ident 50 ''T'', optObj),
      (Ident 51 ''opt'', \<lparr>obj_Name = ''opt'', obj_Type = Basic Bool_kind\<rparr>)]"

definition optFile :: File where
  "optFile = newFile (OtherNode [TypeDecl [optSpec]])"

definition optPkg :: Package where
  "optPkg =
     \<lparr>pkg_name = ''p'', pkg_defs = optDefs, pkg_files = [optFile],
      hasTestFiles = False, trimPrefix = ''opt'', trimSuffix = [], pkg_flagsSize = 0\<rparr>"

subsection \<open>A package whose own name ends in \<^verbatim>\<open>_test\<close>\<close>






section \<open>Properties of the BitFlags runtime\<close>

lemma is_bits_fails: "isl (is_bits sz f idx) \<longleftrightarrow> idx < 0 \<or> sz \<le> idx"
  by (simp add: is_bits_def validateBitIndex_def)

lemma set_bits_fails: "isl (set_bits sz f idx new) \<longleftrightarrow> idx < 0 \<or> sz \<le> idx"
  by (simp add: set_bits_def validateBitIndex_def Let_def)

lemma toggle_fails: "isl (toggle sz f idx) \<longleftrightarrow> idx < 0 \<or> sz \<le> idx"
  by (simp add: toggle_def validateBitIndex_def Let_def)

lemma anySet_loop_fails:
  "isl (anySet_loop sz f idx acc) \<longleftrightarrow> (\<exists>i \<in> set idx. i < 0 \<or> sz \<le> i)"
  by (induction idx arbitrary: acc) (auto simp: validateBitIndex_def)

lemma allSet_loop_fails:
  "isl (allSet_loop sz f idx acc) \<longleftrightarrow> (\<exists>i \<in> set idx. i < 0 \<or> sz \<le> i)"
  by (induction idx arbitrary: acc) (auto simp: validateBitIndex_def)

lemma anySet_fails: "isl (anySet sz f idx) \<longleftrightarrow> (\<exists>i \<in> set idx. i < 0 \<or> sz \<le> i)"
  by (cases idx) (simp_all add: anySet_def anySet_loop_fails del: anySet_loop.simps)

lemma allSet_fails: "isl (allSet sz f idx) \<longleftrightarrow> (\<exists>i \<in> set idx. i < 0 \<or> sz \<le> i)"
  by (cases idx) (simp_all add: allSet_def allSet_loop_fails del: allSet_loop.simps)

lemma isl_map_sum: "isl (map_sum g h x) = isl x"
  by (cases x) simp_all

text \<open>
  Claim C9. For every value of the four flag types, each operation that takes an index
  (\<^verbatim>\<open>Is\<close>, \<^verbatim>\<open>Set\<close>, \<^verbatim>\<open>Reset\<close>, \<^verbatim>\<open>SetTo\<close>, \<^verbatim>\<open>Toggle\<close>) panics exactly when
  \<open>idx < 0 \<or> idx \<ge> Size()\<close>, and \<^verbatim>\<open>AnyOf\<close> and \<^verbatim>\<open>AllOf\<close> panic exactly when one of the
  given indexes is so; for every index from \<open>0\<close> to \<open>Size() - 1\<close> the operation returns
  normally. The panic is a result (\<open>Inl\<close>) of the operation, not the end of the process.
\<close>

theorem index_operations_fail_iff_out_of_range:
  "(isl (Is f idx) \<longleftrightarrow> idx < 0 \<or> idx \<ge> Size f) \<and>
   (isl (Set f idx) \<longleftrightarrow> idx < 0 \<or> idx \<ge> Size f) \<and>
   (isl (Reset f idx) \<longleftrightarrow> idx < 0 \<or> idx \<ge> Size f) \<and>
   (isl (SetTo f idx new) \<longleftrightarrow> idx < 0 \<or> idx \<ge> Size f) \<and>
   (isl (Toggle f idx) \<longleftrightarrow> idx < 0 \<or> idx \<ge> Size f) \<and>
   (isl (AnyOf f idxs) \<longleftrightarrow> (\<exists>i \<in> set idxs. i < 0 \<or> i \<ge> Size f)) \<and>
   (isl (AllOf f idxs) \<longleftrightarrow> (\<exists>i \<in> set idxs. i < 0 \<or> i \<ge> Size f))"
  by (cases f)
     (simp_all add: Set_def Reset_def SetTo_def isl_map_sum is_bits_fails set_bits_fails
        toggle_fails anySet_fails allSet_fails)

theorem index_operations_witness:
  "isl (Is (BitFlags8 5) 8) \<and> \<not> isl (Is (BitFlags8 5) 7) \<and>
   isl (Toggle (BitFlags16 0) (- 1)) \<and> \<not> isl (Toggle (BitFlags16 0) 0) \<and>
   isl (AnyOf (BitFlags32 1) [0, 32]) \<and> \<not> isl (AllOf (BitFlags64 1) [0, 63])"
  using index_operations_fail_iff_out_of_range [of "BitFlags8 5" 8]
    index_operations_fail_iff_out_of_range [of "BitFlags8 5" 7]
    index_operations_fail_iff_out_of_range [of "BitFlags16 0" "- 1"]
    index_operations_fail_iff_out_of_range [of "BitFlags16 0" 0]
    index_operations_fail_iff_out_of_range [of "BitFlags32 1" _ _ "[0, 32]"]
    index_operations_fail_iff_out_of_range [of "BitFlags64 1" _ _ "[0, 63]"]
  by simp

section \<open>Properties of the sizing\<close>

text \<open>
  Claim C2. For every number of fields \<open>n\<close> from 1 to 64, \<^verbatim>\<open>flagSize\<close> returns the
  smallest of 8, 16, 32 and 64 that is at least \<open>n\<close>: 8 for 1 to 8, 16 for 9 to 16, 32 for
  17 to 32, and 64 for 33 to 64.
\<close>

theorem flagSize_is_minimal_width:
  assumes "1 \<le> n" and "n \<le> 64"
  shows "flagSize n \<in> {8, 16, 32, 64} \<and> n \<le> flagSize n \<and>
         (\<forall>w \<in> {8, 16, 32, 64}. n \<le> w \<longrightarrow> flagSize n \<le> w) \<and>
         flagSize n =
           (if n \<le> 8 then 8 else if n \<le> 16 then 16 else if n \<le> 32 then 32 else 64)"
  using assms by (auto simp: flagSize_def)

theorem flagSize_witness:
  "flagSize 9 \<in> {8, 16, 32, 64} \<and> 9 \<le> flagSize 9 \<and> flagSize 9 = 16 \<and> flagSize 9 \<le> 32"
  using flagSize_is_minimal_width [of 9] by simp

section \<open>Properties of the names\<close>

lemma TrimPrefix_Nil [simp]: "TrimPrefix s [] = s"
  by (simp add: TrimPrefix_def)

lemma TrimSuffix_Nil [simp]: "TrimSuffix s [] = s"
  by (simp add: TrimSuffix_def HasSuffix_def)

lemma HasSuffix_append [simp]: "HasSuffix (n @ s) s"
  by (simp add: HasSuffix_def)

text \<open>Trimming with an empty affix changes nothing, so the two tests on the lengths drop out.\<close>

lemma flagName_eq:
  "flagName fieldName p s =
     (case TrimSuffix (TrimPrefix fieldName p) s of
        [] \<Rightarrow> Inl (Panic ''runtime error: index out of range [0] with length 0'')
      | b # bs \<Rightarrow> Inr (upperByte b # bs))"
  by (cases p; cases s) (simp_all add: flagName_def Let_def)

lemma flagName_ok:
  "trimmed pkg n \<noteq> [] \<Longrightarrow>
     flagName n (trimPrefix pkg) (trimSuffix pkg) = Inr (capitalized (trimmed pkg n))"
  by (simp add: flagName_eq trimmed_def capitalized_def split: list.splits)

lemma flagName_panics:
  "trimmed pkg n = [] \<Longrightarrow>
     flagName n (trimPrefix pkg) (trimSuffix pkg) =
       Inl (Panic ''runtime error: index out of range [0] with length 0'')"
  by (simp add: flagName_eq trimmed_def)

text \<open>
  On a first byte that is a lower-case ASCII letter, \<open>upperByte\<close> is the upper-case
  letter; every other ASCII byte it leaves as it is.
\<close>

lemma upperByte_ascii:
  "of_char b \<le> (127 :: nat) \<Longrightarrow>
     upperByte b =
       (if 97 \<le> (of_char b :: nat) \<and> of_char b \<le> (122 :: nat)
        then char_of (of_char b - 32 :: nat) else b)"
  by (simp add: upperByte_def ToUpper_def)

section \<open>Properties of the resolver\<close>

subsection \<open>The loops over the fields\<close>

lemma genFieldNames_ok:
  assumes "\<forall>name \<in> set names. Name name \<noteq> ''_'' \<longrightarrow> pkg_defs pkg name \<noteq> None"
    and "\<forall>name \<in> set names. qualifies pkg name \<longrightarrow> trimmed pkg (Name name) \<noteq> []"
  shows "genFieldNames pkg tn names fvs =
           Inr (fvs @ map (candidate pkg) (filter (qualifies pkg) names))"
  using assms
proof (induction names arbitrary: fvs)
  case Nil
  then show ?case by simp
next
  case (Cons name rest)
  show ?case
  proof (cases "Name name = ''_''")
    case True
    with Cons show ?thesis by (simp add: qualifies_def)
  next
    case False
    with Cons.prems obtain obj where obj: "pkg_defs pkg name = Some obj" by auto
    show ?thesis
    proof (cases "qualifies pkg name")
      case True
      with Cons.prems have ne: "trimmed pkg (Name name) \<noteq> []" by simp
      from True obj obtain k where k: "Unalias (obj_Type obj) = Basic k" "IsBoolean k"
        by (auto simp: qualifies_def split: go_type.splits)
      show ?thesis using False obj k True Cons flagName_ok [OF ne]
        by (simp add: candidate_def)
    next
      case nq: False
      with False obj have "\<forall>k. Unalias (obj_Type obj) = Basic k \<longrightarrow> \<not> IsBoolean k"
        by (auto simp: qualifies_def)
      then show ?thesis using False obj nq Cons
        by (simp split: go_type.splits)
    qed
  qed
qed

lemma genFields_ok:
  assumes "\<forall>name \<in> set (concat (map Names flds)).
             Name name \<noteq> ''_'' \<longrightarrow> pkg_defs pkg name \<noteq> None"
    and "\<forall>name \<in> set (concat (map Names flds)).
           qualifies pkg name \<longrightarrow> trimmed pkg (Name name) \<noteq> []"
  shows "genFields pkg tn flds fvs = Inr (fvs @ candidates pkg flds)"
  using assms
proof (induction flds arbitrary: fvs)
  case Nil
  then show ?case by (simp add: candidates_def)
next
  case (Cons fld rest)
  have a: "genFieldNames pkg tn (Names fld) fvs =
             Inr (fvs @ map (candidate pkg) (filter (qualifies pkg) (Names fld)))"
    using Cons.prems by (intro genFieldNames_ok) auto
  have b: "genFields pkg tn rest fvs' = Inr (fvs' @ candidates pkg rest)" for fvs'
    using Cons.prems by (intro Cons.IH) auto
  show ?case using a b by (cases "Names fld") (simp_all add: candidates_def)
qed

text \<open>
  When every field name has its object, the only failure of the loops is the panic of
  \<^verbatim>\<open>flagName\<close>, and it happens as soon as one qualifying name is trimmed to nothing.
\<close>

lemma genFieldNames_panics:
  assumes "\<forall>name \<in> set names. Name name \<noteq> ''_'' \<longrightarrow> pkg_defs pkg name \<noteq> None"
    and "\<exists>name \<in> set names. qualifies pkg name \<and> trimmed pkg (Name name) = []"
  shows "genFieldNames pkg tn names fvs =
           Inl (Panic ''runtime error: index out of range [0] with length 0'')"
  using assms
proof (induction names arbitrary: fvs)
  case Nil
  then show ?case by simp
next
  case (Cons name rest)
  show ?case
  proof (cases "qualifies pkg name \<and> trimmed pkg (Name name) = []")
    case True
    then obtain obj k where "Name name \<noteq> ''_''" "pkg_defs pkg name = Some obj"
      "Unalias (obj_Type obj) = Basic k" "IsBoolean k"
      by (auto simp: qualifies_def split: option.splits go_type.splits)
    with True show ?thesis by (simp add: flagName_panics)
  next
    case False
    with Cons.prems have ex: "\<exists>n \<in> set rest. qualifies pkg n \<and> trimmed pkg (Name n) = []"
      by auto
    have ih: "genFieldNames pkg tn rest fvs' =
                Inl (Panic ''runtime error: index out of range [0] with length 0'')" for fvs'
      using Cons.prems(1) ex by (intro Cons.IH) auto
    show ?thesis
    proof (cases "Name name = ''_''")
      case True
      with ih show ?thesis by simp
    next
      case nb: False
      with Cons.prems obtain obj where obj: "pkg_defs pkg name = Some obj" by auto
      show ?thesis
      proof (cases "qualifies pkg name")
        case True
        with False have ne: "trimmed pkg (Name name) \<noteq> []" by simp
        from True obj obtain k where "Unalias (obj_Type obj) = Basic k" "IsBoolean k"
          by (auto simp: qualifies_def split: go_type.splits)
        then show ?thesis using nb obj ih flagName_ok [OF ne] by simp
      next
        case nq: False
        with nb obj have "\<forall>k. Unalias (obj_Type obj) = Basic k \<longrightarrow> \<not> IsBoolean k"
          by (auto simp: qualifies_def)
        then show ?thesis using nb obj ih by (simp split: go_type.splits)
      qed
    qed
  qed
qed

lemma genFields_panics:
  assumes "\<forall>name \<in> set (concat (map Names flds)).
             Name name \<noteq> ''_'' \<longrightarrow> pkg_defs pkg name \<noteq> None"
    and "\<exists>name \<in> set (concat (map Names flds)).
           qualifies pkg name \<and> trimmed pkg (Name name) = []"
  shows "genFields pkg tn flds fvs =
           Inl (Panic ''runtime error: index out of range [0] with length 0'')"
  using assms
proof (induction flds arbitrary: fvs)
  case Nil
  then show ?case by simp
next
  case (Cons fld rest)
  have defs: "\<forall>name \<in> set (Names fld). Name name \<noteq> ''_'' \<longrightarrow> pkg_defs pkg name \<noteq> None"
    using Cons.prems(1) by auto
  show ?case
  proof (cases "\<exists>name \<in> set (Names fld). qualifies pkg name \<and> trimmed pkg (Name name) = []")
    case True
    then have "Names fld \<noteq> []" by auto
    with genFieldNames_panics [OF defs True] show ?thesis by simp
  next
    case False
    then have ok: "genFieldNames pkg tn (Names fld) fvs =
                     Inr (fvs @ map (candidate pkg) (filter (qualifies pkg) (Names fld)))"
      using defs by (intro genFieldNames_ok) auto
    from False Cons.prems have
      "\<exists>name \<in> set (concat (map Names rest)). qualifies pkg name \<and> trimmed pkg (Name name) = []"
      by auto
    then have "genFields pkg tn rest fvs' =
                 Inl (Panic ''runtime error: index out of range [0] with length 0'')" for fvs'
      using Cons.prems(1) by (intro Cons.IH) auto
    with ok show ?thesis by simp
  qed
qed

lemma genSpecs_struct:
  assumes "sourceTypeName f = Name (spec_Name tspec)"
    and "spec_Type tspec = StructType flds"
    and "pkg_defs pkg (spec_Name tspec) = Some obj"
    and "\<forall>name \<in> set (concat (map Names flds)).
           Name name \<noteq> ''_'' \<longrightarrow> pkg_defs pkg name \<noteq> None"
    and "\<forall>name \<in> set (concat (map Names flds)).
           qualifies pkg name \<longrightarrow> trimmed pkg (Name name) \<noteq> []"
  shows "genSpecs pkg [tspec] f =
           Inr (f\<lparr>foundSourceType := Some obj, flagValues := candidates pkg flds\<rparr>)"
  using assms genFields_ok [of flds pkg "Name (spec_Name tspec)" "[]"]
  by (simp add: Let_def)

lemma genSpecs_other:
  assumes "sourceTypeName f = Name (spec_Name tspec)"
    and "spec_Type tspec = OtherExpr"
    and "pkg_defs pkg (spec_Name tspec) = Some obj"
  shows "genSpecs pkg [tspec] f = Inr (f\<lparr>foundSourceType := Some obj\<rparr>)"
  using assms by (simp add: Let_def)

lemma genSpecs_struct_panics:
  assumes "sourceTypeName f = Name (spec_Name tspec)"
    and "spec_Type tspec = StructType flds"
    and "pkg_defs pkg (spec_Name tspec) = Some obj"
    and "\<forall>name \<in> set (concat (map Names flds)).
           Name name \<noteq> ''_'' \<longrightarrow> pkg_defs pkg name \<noteq> None"
    and "\<exists>name \<in> set (concat (map Names flds)).
           qualifies pkg name \<and> trimmed pkg (Name name) = []"
  shows "genSpecs pkg [tspec] f =
           Inl (Panic ''runtime error: index out of range [0] with length 0'')"
  using assms genFields_panics [of flds pkg "Name (spec_Name tspec)" "[]"]
  by (simp add: Let_def)

lemma candidates_types_irrelevant:
  "candidates pkg (map (\<lambda>fld. AstField (Names fld) ty) flds) = candidates pkg flds"
  by (simp add: candidates_def comp_def)

lemma candidates_fields:
  "map Field (candidates pkg flds) =
     map Name (filter (qualifies pkg) (concat (map Names flds)))"
  by (simp add: candidates_def candidate_def comp_def)

subsection \<open>The walk of a file\<close>

lemma eqv_refl [simp]: "eqv f f"
  by (simp add: eqv_def)

lemma File_eqI: "eqv f g \<Longrightarrow> flagsSize f = flagsSize g \<Longrightarrow> f = (g :: File)"
  by (simp add: eqv_def)

lemma sized_reset [simp]: "sized (reset fl t)"
  by (simp add: sized_def reset_def flagSize_def)

lemma sourceTypeName_reset [simp]: "sourceTypeName (reset fl t) = t"
  by (simp add: reset_def)

lemma genSpecs_append:
  "genSpecs pkg (xs @ ys) f =
     (case genSpecs pkg xs f of Inl e \<Rightarrow> Inl e | Inr f' \<Rightarrow> genSpecs pkg ys f')"
  by (induction xs arbitrary: f)
     (auto simp: Let_def split: if_splits option.splits expr.splits sum.splits)

lemma genSpecs_eqv:
  "eqv f g \<Longrightarrow> rel_sum (=) eqv (genSpecs pkg xs f) (genSpecs pkg xs g)"
proof (induction xs arbitrary: f g)
  case Nil
  then show ?case by simp
next
  case (Cons a xs)
  have step: "rel_sum (=) eqv (genSpecs pkg xs (f\<lparr>foundSourceType := x\<rparr>))
                (genSpecs pkg xs (g\<lparr>foundSourceType := x\<rparr>))" for x
    using Cons.prems by (intro Cons.IH) (simp add: eqv_def)
  have step2: "rel_sum (=) eqv (genSpecs pkg xs (f\<lparr>foundSourceType := x, flagValues := y\<rparr>))
                 (genSpecs pkg xs (g\<lparr>foundSourceType := x, flagValues := y\<rparr>))" for x y
    using Cons.prems by (intro Cons.IH) (simp add: eqv_def)
  have nm: "sourceTypeName f = sourceTypeName g" using Cons.prems by (simp add: eqv_def)
  show ?case using Cons.IH [OF Cons.prems] step step2 nm
    by (simp add: Let_def split: option.splits expr.splits sum.splits)
qed

text \<open>Only the specs of the requested name take part.\<close>

lemma genSpecs_filter:
  "genSpecs pkg specs f =
     genSpecs pkg (filter (\<lambda>tspec. Name (spec_Name tspec) = sourceTypeName f) specs) f"
  by (induction specs arbitrary: f)
     (auto simp: Let_def split: if_splits option.splits expr.splits sum.splits)

lemma genSpecs_found:
  "genSpecs pkg specs f = Inr f' \<Longrightarrow>
     (\<exists>tspec \<in> set specs. Name (spec_Name tspec) = sourceTypeName f) \<or>
       foundSourceType f \<noteq> None \<Longrightarrow>
     foundSourceType f' \<noteq> None"
proof (induction specs arbitrary: f)
  case Nil
  then show ?case by simp
next
  case (Cons a specs)
  show ?case
  proof (cases "sourceTypeName f = Name (spec_Name a)")
    case True
    with Cons.prems(1) obtain f1 where
      f1: "genSpecs pkg specs f1 = Inr f'" "foundSourceType f1 \<noteq> None"
      by (auto simp: Let_def split: option.splits expr.splits sum.splits)
    from Cons.IH [OF f1(1)] f1(2) show ?thesis by simp
  next
    case False
    with Cons.prems have g: "genSpecs pkg specs f = Inr f'" by simp
    from False Cons.prems(2) have
      "(\<exists>tspec \<in> set specs. Name (spec_Name tspec) = sourceTypeName f) \<or>
         foundSourceType f \<noteq> None"
      by auto
    from Cons.IH [OF g this] show ?thesis .
  qed
qed

lemma rel_sum_eqv_trans:
  "rel_sum (=) eqv a b \<Longrightarrow> rel_sum (=) eqv b c \<Longrightarrow> rel_sum (=) eqv a c"
  by (cases a; cases b; cases c) (auto simp: eqv_def)

text \<open>
  The walk of a file does to the state what the loop over the type specs does to it when
  run over all type specs the walk comes across, \<open>flagsSize\<close> apart.
\<close>

lemma Inspect_genSpecs:
  "rel_sum (=) eqv (Inspect (genStructDecl pkg) n f) (genSpecs pkg (typeSpecs n) f)"
  and "rel_sum (=) eqv (InspectAll (genStructDecl pkg) cs f)
         (genSpecs pkg (concat (map typeSpecs cs)) f)"
proof (induction "genStructDecl pkg" n f and "genStructDecl pkg" cs f
    rule: Inspect_InspectAll.induct)
  case (1 cs s)
  then show ?case by simp
next
  case (2 specs s)
  then show ?case by (cases "genSpecs pkg specs s") (simp_all add: eqv_def)
next
  case (3 s)
  then show ?case by simp
next
  case (4 c cs s)
  show ?case
  proof (cases "Inspect (genStructDecl pkg) c s")
    case (Inl e)
    with 4(1) show ?thesis
      by (cases "genSpecs pkg (typeSpecs c) s") (simp_all add: genSpecs_append)
  next
    case (Inr s')
    with 4(1) obtain s'' where s'': "genSpecs pkg (typeSpecs c) s = Inr s''" "eqv s' s''"
      by (cases "genSpecs pkg (typeSpecs c) s") auto
    have "rel_sum (=) eqv (InspectAll (genStructDecl pkg) cs s')
            (genSpecs pkg (concat (map typeSpecs cs)) s')"
      by (rule 4(2) [OF Inr])
    moreover have "rel_sum (=) eqv (genSpecs pkg (concat (map typeSpecs cs)) s')
                     (genSpecs pkg (concat (map typeSpecs cs)) s'')"
      by (rule genSpecs_eqv [OF s''(2)])
    ultimately show ?thesis using Inr s''(1)
      by (simp add: genSpecs_append) (rule rel_sum_eqv_trans)
  qed
qed

lemma Inspect_sized:
  "Inspect (genStructDecl pkg) n f = Inr f' \<Longrightarrow> sized f \<Longrightarrow> sized f'"
  and "InspectAll (genStructDecl pkg) cs f = Inr f' \<Longrightarrow> sized f \<Longrightarrow> sized f'"
proof (induction "genStructDecl pkg" n f and "genStructDecl pkg" cs f
    arbitrary: f' and f' rule: Inspect_InspectAll.induct)
  case (1 cs s)
  then show ?case by simp
next
  case (2 specs s)
  then show ?case by (auto simp: sized_def split: sum.splits)
next
  case (3 s)
  then show ?case by simp
next
  case (4 c cs s)
  then show ?case by (auto split: sum.splits)
qed

lemma Inspect_no_match:
  assumes "matchingSpecs n (sourceTypeName f) = []" and "sized f"
  shows "Inspect (genStructDecl pkg) n f = Inr f"
proof -
  have g: "genSpecs pkg (typeSpecs n) f = Inr f"
    using assms(1) genSpecs_filter [of pkg "typeSpecs n" f] by (simp add: matchingSpecs_def)
  with Inspect_genSpecs(1) [of pkg n f] obtain f' where
    f': "Inspect (genStructDecl pkg) n f = Inr f'" "eqv f' f"
    by (cases "Inspect (genStructDecl pkg) n f") auto
  from Inspect_sized(1) [OF f'(1) assms(2)] have "sized f'" .
  with f'(2) assms(2) have "flagsSize f' = flagsSize f" by (simp add: sized_def eqv_def)
  with f' show ?thesis by (simp add: File_eqI)
qed

lemma Inspect_one_match:
  assumes m: "matchingSpecs n (sourceTypeName f) = [tspec]" and s: "sized f"
    and g: "genSpecs pkg [tspec] f = Inr f'"
  shows "Inspect (genStructDecl pkg) n f =
           Inr (f'\<lparr>flagsSize := flagSize (int (length (flagValues f')))\<rparr>)"
proof -
  have "genSpecs pkg (typeSpecs n) f = Inr f'"
    using m g genSpecs_filter [of pkg "typeSpecs n" f] by (simp add: matchingSpecs_def)
  with Inspect_genSpecs(1) [of pkg n f] obtain f'' where
    f'': "Inspect (genStructDecl pkg) n f = Inr f''" "eqv f'' f'"
    by (cases "Inspect (genStructDecl pkg) n f") auto
  from Inspect_sized(1) [OF f''(1) s] have "sized f''" .
  with f''(2) have "f'' = f'\<lparr>flagsSize := flagSize (int (length (flagValues f')))\<rparr>"
    by (intro File_eqI) (simp_all add: sized_def eqv_def)
  with f'' show ?thesis by simp
qed

lemma Inspect_one_match_fails:
  assumes m: "matchingSpecs n (sourceTypeName f) = [tspec]"
    and g: "genSpecs pkg [tspec] f = Inl e"
  shows "Inspect (genStructDecl pkg) n f = Inl e"
proof -
  have "genSpecs pkg (typeSpecs n) f = Inl e"
    using m g genSpecs_filter [of pkg "typeSpecs n" f] by (simp add: matchingSpecs_def)
  with Inspect_genSpecs(1) [of pkg n f] show ?thesis
    by (cases "Inspect (genStructDecl pkg) n f") auto
qed

lemma Inspect_match_found:
  assumes m: "matchingSpecs n (sourceTypeName f) \<noteq> []"
    and i: "Inspect (genStructDecl pkg) n f = Inr f'"
  shows "foundSourceType f' \<noteq> None"
proof -
  from i Inspect_genSpecs(1) [of pkg n f] obtain f'' where
    f'': "genSpecs pkg (typeSpecs n) f = Inr f''" "eqv f' f''"
    by (cases "genSpecs pkg (typeSpecs n) f") auto
  from m have "\<exists>tspec \<in> set (typeSpecs n). Name (spec_Name tspec) = sourceTypeName f"
    by (auto simp: matchingSpecs_def filter_empty_conv)
  with genSpecs_found [OF f''(1)] have "foundSourceType f'' \<noteq> None" by simp
  with f''(2) show ?thesis by (simp add: eqv_def)
qed

subsection \<open>The search through the files of a package\<close>

lemma find_loop_reset:
  "findStructTypeFile_loop pkg (fl # rest) t =
     (case Inspect (genStructDecl pkg) (file_ast fl) (reset fl t) of
        Inl e \<Rightarrow> Inl e
      | Inr fl' \<Rightarrow>
          if foundSourceType fl' \<noteq> None then Inr (Some fl')
          else findStructTypeFile_loop pkg rest t)"
  by (simp add: reset_def Let_def)

lemma find_loop_skip:
  assumes "\<forall>f \<in> set pre. matchingSpecs (file_ast f) t = []"
  shows "findStructTypeFile_loop pkg (pre @ rest) t = findStructTypeFile_loop pkg rest t"
  using assms
proof (induction pre)
  case Nil
  then show ?case by simp
next
  case (Cons a pre)
  have "Inspect (genStructDecl pkg) (file_ast a) (reset a t) = Inr (reset a t)"
    using Cons.prems by (intro Inspect_no_match sized_reset) (simp add: reset_def)
  then show ?case using Cons
    by (simp add: find_loop_reset del: findStructTypeFile_loop.simps) (simp add: reset_def)
qed

lemma find_loop_sized:
  "findStructTypeFile_loop pkg files t = Inr (Some f) \<Longrightarrow> sized f"
proof (induction files)
  case Nil
  then show ?case by simp
next
  case (Cons a files)
  show ?case
  proof (cases "Inspect (genStructDecl pkg) (file_ast a) (reset a t)")
    case (Inl e)
    with Cons.prems show ?thesis
      by (simp add: find_loop_reset del: findStructTypeFile_loop.simps)
  next
    case (Inr a')
    from Inspect_sized(1) [OF Inr] have "sized a'" by simp
    with Inr Cons show ?thesis
      by (auto simp: find_loop_reset simp del: findStructTypeFile_loop.simps split: if_splits)
  qed
qed

lemma find_sized: "findStructTypeFile pkg t = Inr (Some f) \<Longrightarrow> sized f"
  by (simp add: findStructTypeFile_def find_loop_sized)



text \<open>
  The file found when the name is declared once in it and in no file before it; the files
  after it play no part.
\<close>

lemma find_unique:
  assumes files: "pkg_files pkg = pre @ fl # post"
    and pre: "\<forall>f \<in> set pre. matchingSpecs (file_ast f) t = []"
    and m: "matchingSpecs (file_ast fl) t = [tspec]"
    and g: "genSpecs pkg [tspec] (reset fl t) = Inr f'"
  shows "findStructTypeFile pkg t =
           Inr (Some (f'\<lparr>flagsSize := flagSize (int (length (flagValues f')))\<rparr>))"
proof -
  have "Inspect (genStructDecl pkg) (file_ast fl) (reset fl t) =
          Inr (f'\<lparr>flagsSize := flagSize (int (length (flagValues f')))\<rparr>)"
    using m g Inspect_one_match [of "file_ast fl" "reset fl t" tspec pkg f']
    by simp
  moreover have "matchingSpecs (file_ast fl) (sourceTypeName (reset fl t)) \<noteq> []"
    using m by simp
  ultimately have "foundSourceType (f'\<lparr>flagsSize := flagSize (int (length (flagValues f')))\<rparr>) \<noteq> None"
    using Inspect_match_found by blast
  with \<open>Inspect (genStructDecl pkg) (file_ast fl) (reset fl t) = _\<close> show ?thesis
    using files find_loop_skip [OF pre, of pkg "fl # post"]
    by (simp add: findStructTypeFile_def find_loop_reset del: findStructTypeFile_loop.simps)
qed

lemma find_unique_fails:
  assumes files: "pkg_files pkg = pre @ fl # post"
    and pre: "\<forall>f \<in> set pre. matchingSpecs (file_ast f) t = []"
    and m: "matchingSpecs (file_ast fl) t = [tspec]"
    and g: "genSpecs pkg [tspec] (reset fl t) = Inl e"
  shows "findStructTypeFile pkg t = Inl e"
proof -
  have "Inspect (genStructDecl pkg) (file_ast fl) (reset fl t) = Inl e"
    using m g Inspect_one_match_fails [of "file_ast fl" "reset fl t" tspec pkg e]
    by simp
  then show ?thesis
    using files find_loop_skip [OF pre, of pkg "fl # post"]
    by (simp add: findStructTypeFile_def find_loop_reset del: findStructTypeFile_loop.simps)
qed

lemma matching_name:
  "matchingSpecs n t = [tspec] \<Longrightarrow> Name (spec_Name tspec) = t"
  by (metis (mono_tags, lifting) filter_eq_Cons_iff matchingSpecs_def)




section \<open>Properties of the loops of \<^verbatim>\<open>main\<close>\<close>

lemma emitted_append [simp]: "emitted (xs @ ys) = emitted xs @ emitted ys"
  by (induction xs rule: emitted.induct) simp_all

lemma generateForStruct_Inr:
  "generateForStruct g t out f = Inr g' \<Longrightarrow>
     gen_pkg g' = gen_pkg g \<and> emitted (buf g') = emitted (buf g) @ [t]"
  by (auto simp: generateForStruct_def Let_def split: if_splits)

lemma generateForStruct_Inl_out:
  "generateForStruct g t out f = Inl e \<Longrightarrow> generateForStruct g t out' f = Inl e"
  by (auto simp: generateForStruct_def Let_def split: if_splits)

lemma generateForStruct_Inl_buf:
  "generateForStruct g t out f = Inl e \<Longrightarrow> gen_pkg g' = gen_pkg g \<Longrightarrow>
     generateForStruct g' t out f = Inl e"
  by (auto simp: generateForStruct_def Let_def split: if_splits)

text \<open>One round of the loop over the types.\<close>

lemma typesLoop_Cons:
  "typesLoop outs pkg idx (t # rest) g found remaining =
     (if outs \<noteq> [] \<and> \<not> idx < length outs then Inl (Panic ''runtime error: index out of range'')
      else case findStructTypeFile pkg t of
             Inl e \<Rightarrow> Inl e
           | Inr None \<Rightarrow> typesLoop outs pkg (idx + 1) rest g found (remaining @ [t])
           | Inr (Some fl) \<Rightarrow>
               if \<not> isValidStructFile fl then Inl (unsupported pkg t fl)
               else (case generateForStruct g t (outNameFor outs idx t) fl of
                       Inl e \<Rightarrow> Inl e
                     | Inr g' \<Rightarrow> typesLoop outs pkg (idx + 1) rest g' (found @ [t]) remaining))"
  by (subst typesLoop.simps)
     (auto simp: outNameFor_def unsupported_def Let_def split: sum.splits option.splits)












subsection \<open>The order of the packages\<close>

lemma sorted_pkgs_order:
  assumes s: "sorted_pkgs pkgs"
    and mem: "plain \<in> set pkgs" "withTests \<in> set pkgs" "ext \<in> set pkgs"
    and names: "\<not> HasSuffix (pkg_name plain) ''_test''" "pkg_name withTests = pkg_name plain"
      "pkg_name ext = pkg_name plain @ ''_test''"
    and files: "length (pkg_files plain) < length (pkg_files withTests)"
  shows "\<exists>i j k. i < j \<and> j < k \<and> k < length pkgs \<and>
           pkgs ! i = plain \<and> pkgs ! j = withTests \<and> pkgs ! k = ext"
proof -
  from mem obtain i j k where
    i: "i < length pkgs" "pkgs ! i = plain" and j: "j < length pkgs" "pkgs ! j = withTests"
    and k: "k < length pkgs" "pkgs ! k = ext"
    by (auto simp: in_set_conv_nth)
  have nl: "a < b \<Longrightarrow> b < length pkgs \<Longrightarrow> \<not> less_pkg (pkgs ! b) (pkgs ! a)" for a b
    using s by (simp add: sorted_pkgs_def sorted_wrt_iff_nth_less)
  have l1: "less_pkg plain withTests" using names files by (simp add: less_pkg_def)
  have l2: "less_pkg withTests ext" using names by (simp add: less_pkg_def)
  have "plain \<noteq> withTests" using files by auto
  then have "i \<noteq> j" using i j by auto
  moreover have "\<not> j < i" using nl [of j i] i j l1 by auto
  ultimately have ij: "i < j" by simp
  have "withTests \<noteq> ext" using names by auto
  then have "j \<noteq> k" using j k by auto
  moreover have "\<not> k < j" using nl [of k j] j k l2 by auto
  ultimately have "j < k" by simp
  with ij i j k show ?thesis by blast
qed



declare typesLoop.simps(2) [simp del]

subsection \<open>Runs that end early\<close>

lemma generateForStruct_rejected:
  assumes "rejected (gen_pkg g) f" "isValidStructFile f"
  shows "\<exists>e. generateForStruct g t out f = Inl e"
  using assms by (auto simp: rejected_def generateForStruct_def Let_def)

lemma typesLoop_Cons_panic:
  "outs \<noteq> [] \<Longrightarrow> \<not> idx < length outs \<Longrightarrow>
     typesLoop outs pkg idx (t # rest) g found remaining =
       Inl (Panic ''runtime error: index out of range'')"
  by (simp add: typesLoop_Cons)

lemma typesLoop_Cons_ok:
  "outs = [] \<or> idx < length outs \<Longrightarrow>
     typesLoop outs pkg idx (t # rest) g found remaining =
       (case findStructTypeFile pkg t of
          Inl e \<Rightarrow> Inl e
        | Inr None \<Rightarrow> typesLoop outs pkg (idx + 1) rest g found (remaining @ [t])
        | Inr (Some fl) \<Rightarrow>
            if \<not> isValidStructFile fl then Inl (unsupported pkg t fl)
            else (case generateForStruct g t (outNameFor outs idx t) fl of
                    Inl e \<Rightarrow> Inl e
                  | Inr g' \<Rightarrow> typesLoop outs pkg (idx + 1) rest g' (found @ [t]) remaining))"
  by (subst typesLoop_Cons) auto

lemma typesLoop_step_cases:
  "(\<exists>e. typesLoop outs pkg idx (a # names) g found remaining = Inl e) \<or>
   (\<exists>g' found' remaining'. gen_pkg g' = gen_pkg g \<and>
      typesLoop outs pkg idx (a # names) g found remaining =
        typesLoop outs pkg (idx + 1) names g' found' remaining')"
proof (cases "outs = [] \<or> idx < length outs")
  case False
  then have "typesLoop outs pkg idx (a # names) g found remaining =
               Inl (Panic ''runtime error: index out of range'')"
    by (intro typesLoop_Cons_panic) auto
  then show ?thesis by blast
next
  case True
  note eq = typesLoop_Cons_ok [OF True, of pkg a names g found remaining]
  show ?thesis
  proof (cases "findStructTypeFile pkg a")
    case (Inl e)
    then have "typesLoop outs pkg idx (a # names) g found remaining = Inl e"
      by (simp add: eq)
    then show ?thesis by blast
  next
    case (Inr r)
    show ?thesis
    proof (cases r)
      case None
      with Inr have "typesLoop outs pkg idx (a # names) g found remaining =
              typesLoop outs pkg (idx + 1) names g found (remaining @ [a])"
        by (simp add: eq)
      then show ?thesis by blast
    next
      case (Some f)
      show ?thesis
      proof (cases "isValidStructFile f")
        case False
        with Inr Some have "typesLoop outs pkg idx (a # names) g found remaining =
                Inl (unsupported pkg a f)"
          by (simp add: eq)
        then show ?thesis by blast
      next
        case True
        show ?thesis
        proof (cases "generateForStruct g a (outNameFor outs idx a) f")
          case (Inl e)
          with \<open>findStructTypeFile pkg a = Inr r\<close> Some True
          have "typesLoop outs pkg idx (a # names) g found remaining = Inl e"
            by (simp add: eq)
          then show ?thesis by blast
        next
          case gi: (Inr g')
          from generateForStruct_Inr [OF gi] have gp: "gen_pkg g' = gen_pkg g" by simp
          have "typesLoop outs pkg idx (a # names) g found remaining =
                  typesLoop outs pkg (idx + 1) names g' (found @ [a]) remaining"
            using \<open>findStructTypeFile pkg a = Inr r\<close> Some True gi by (simp add: eq)
          with gp show ?thesis by blast
        qed
      qed
    qed
  qed
qed

lemma typesLoop_head_stops:
  assumes bad: "stops pkg t" and g: "gen_pkg g = pkg"
  shows "\<exists>e. typesLoop outs pkg idx (t # names) g found remaining = Inl e"
proof (cases "outs = [] \<or> idx < length outs")
  case False
  then have "typesLoop outs pkg idx (t # names) g found remaining =
               Inl (Panic ''runtime error: index out of range'')"
    by (intro typesLoop_Cons_panic) auto
  then show ?thesis by blast
next
  case True
  note eq = typesLoop_Cons_ok [OF True, of pkg t names g found remaining]
  show ?thesis
  proof (cases "findStructTypeFile pkg t")
    case (Inl e)
    then show ?thesis by (simp add: eq)
  next
    case (Inr r)
    with bad obtain f where f: "r = Some f" "rejected pkg f"
      by (cases r) (simp_all add: stops_def)
    show ?thesis
    proof (cases "isValidStructFile f")
      case True
      with generateForStruct_rejected [of g f t "outNameFor outs idx t"] f g
      obtain e where "generateForStruct g t (outNameFor outs idx t) f = Inl e" by auto
      with Inr f True show ?thesis by (simp add: eq)
    next
      case False
      with Inr f show ?thesis by (simp add: eq)
    qed
  qed
qed

lemma typesLoop_fails:
  assumes t: "t \<in> set names"
    and bad: "stops pkg t"
    and g: "gen_pkg g = pkg"
  shows "\<exists>e. typesLoop outs pkg idx names g found remaining = Inl e"
  using t g
proof (induction names arbitrary: idx g found remaining)
  case Nil
  then show ?case by simp
next
  case (Cons a names)
  show ?case
  proof (cases "a = t")
    case True
    with typesLoop_head_stops [OF bad Cons.prems(2)] show ?thesis by simp
  next
    case False
    with Cons.prems have tn: "t \<in> set names" by simp
    from typesLoop_step_cases [of outs pkg idx a names g found remaining]
    show ?thesis
    proof
      assume "\<exists>e. typesLoop outs pkg idx (a # names) g found remaining = Inl e"
      then show ?thesis .
    next
      assume "\<exists>g' found' remaining'. gen_pkg g' = gen_pkg g \<and>
        typesLoop outs pkg idx (a # names) g found remaining =
          typesLoop outs pkg (idx + 1) names g' found' remaining'"
      then obtain g' found' remaining' where
        s: "gen_pkg g' = gen_pkg g"
        "typesLoop outs pkg idx (a # names) g found remaining =
           typesLoop outs pkg (idx + 1) names g' found' remaining'"
        by blast
      from Cons.IH [OF tn, of g' "idx + 1" found' remaining'] s Cons.prems(2)
      show ?thesis by simp
    qed
  qed
qed

lemma processPackage_fails:
  assumes "t \<in> set (sourceTypeNames inp)" "stops pkg t"
  shows "\<exists>e. processPackage inp pkg = Inl e"
proof -
  have "gen_pkg (generateHeader \<lparr>buf = [], gen_pkg = pkg\<rparr>) = pkg"
    by (simp add: generateHeader_def)
  from typesLoop_fails [OF assms this]
  obtain e where "typesLoop (outTypeNames inp) pkg 0 (sourceTypeNames inp)
               (generateHeader \<lparr>buf = [], gen_pkg = pkg\<rparr>) [] [] = Inl e"
    by blast
  then show ?thesis
    by (simp add: processPackage_def Let_def)
qed

lemma mainLoop_fails:
  assumes "t \<in> set (sourceTypeNames inp)" "stops pkg t"
  shows "\<exists>e. mainLoop inp (pkg # pkgs) ws = (ws, Inl e)"
proof -
  from processPackage_fails [OF assms] obtain e where "processPackage inp pkg = Inl e"
    by blast
  then show ?thesis by simp
qed

text \<open>When the type is the first one requested, the failure is the one of that type.\<close>

lemma processPackage_first:
  assumes "sourceTypeNames inp = t # rest"
    and "typesLoop (outTypeNames inp) pkg 0 (t # rest)
           (generateHeader \<lparr>buf = [], gen_pkg = pkg\<rparr>) [] [] = Inl e"
  shows "main inp (pkg # pkgs) = ([], Some e)"
  using assms by (simp add: main_def processPackage_def Let_def)

lemma main_first_find_fails:
  assumes "sourceTypeNames inp = t # rest" "findStructTypeFile pkg t = Inl e"
  shows "main inp (pkg # pkgs) = ([], Some e)"
  using assms(1)
proof (rule processPackage_first)
  show "typesLoop (outTypeNames inp) pkg 0 (t # rest)
           (generateHeader \<lparr>buf = [], gen_pkg = pkg\<rparr>) [] [] = Inl e"
    using assms(2) by (simp add: typesLoop_Cons_ok)
qed

lemma main_first_invalid:
  assumes "sourceTypeNames inp = t # rest" "findStructTypeFile pkg t = Inr (Some f)"
    "\<not> isValidStructFile f"
  shows "main inp (pkg # pkgs) = ([], Some (unsupported pkg t f))"
  using assms(1)
proof (rule processPackage_first)
  show "typesLoop (outTypeNames inp) pkg 0 (t # rest)
           (generateHeader \<lparr>buf = [], gen_pkg = pkg\<rparr>) [] [] = Inl (unsupported pkg t f)"
    using assms(2,3) by (simp add: typesLoop_Cons_ok)
qed

lemma main_first_generate_fails:
  assumes "sourceTypeNames inp = t # rest" "findStructTypeFile pkg t = Inr (Some f)"
    "isValidStructFile f" "generateForStruct g t out f = Inl e" "gen_pkg g = pkg"
  shows "main inp (pkg # pkgs) = ([], Some e)"
  using assms(1)
proof (rule processPackage_first)
  have "gen_pkg (generateHeader \<lparr>buf = [], gen_pkg = pkg\<rparr>) = gen_pkg g"
    using assms(5) by (simp add: generateHeader_def)
  from generateForStruct_Inl_buf [OF assms(4) this]
  have "generateForStruct (generateHeader \<lparr>buf = [], gen_pkg = pkg\<rparr>) t
          (outNameFor (outTypeNames inp) 0 t) f = Inl e"
    by (rule generateForStruct_Inl_out)
  then show "typesLoop (outTypeNames inp) pkg 0 (t # rest)
           (generateHeader \<lparr>buf = [], gen_pkg = pkg\<rparr>) [] [] = Inl e"
    using assms(2,3) by (simp add: typesLoop_Cons_ok)
qed

section \<open>The claims about the generator\<close>

subsection \<open>Field candidates\<close>

text \<open>
  Claim C1. For every struct-shaped type declaration whose name is the requested one, the
  resolver (the loop over the type specs, at that declaration) marks the type as found and
  leaves as flag values exactly the candidates of the declaration: the names of its own
  fields that are not blank and whose type, aliases resolved, is a builtin boolean, in
  the order of the declaration. An embedded field has no name and contributes nothing;
  every other field that does not qualify (an \<^verbatim>\<open>int\<close>, a \<^verbatim>\<open>string\<close>, a named type
  derived from \<^verbatim>\<open>bool\<close>) is passed over without a failure; and the type expressions of the
  fields, with the struct types nested in them, are never looked at. It is assumed that
  the type checker has an object for every field name, as it has for a checked package,
  and that no qualifying name is trimmed to nothing (the case of claim C10).
\<close>

theorem resolver_candidates:
  assumes "sourceTypeName f = Name (spec_Name tspec)"
    and "spec_Type tspec = StructType flds"
    and "pkg_defs pkg (spec_Name tspec) = Some obj"
    and "\<forall>name \<in> set (concat (map Names flds)).
           Name name \<noteq> ''_'' \<longrightarrow> pkg_defs pkg name \<noteq> None"
    and "\<forall>name \<in> set (concat (map Names flds)).
           qualifies pkg name \<longrightarrow> trimmed pkg (Name name) \<noteq> []"
  shows "genSpecs pkg [tspec] f =
           Inr (f\<lparr>foundSourceType := Some obj, flagValues := candidates pkg flds\<rparr>) \<and>
         map Field (candidates pkg flds) =
           map Name (filter (qualifies pkg) (concat (map Names flds))) \<and>
         candidates pkg (map (\<lambda>fld. AstField (Names fld) OtherExpr) flds) =
           candidates pkg flds"
  using genSpecs_struct [OF assms] candidates_fields [of pkg flds]
    candidates_types_irrelevant [of pkg OtherExpr flds]
  by simp

text \<open>
  The struct of \<^verbatim>\<open>testdata/mix_options\<close>: the candidates are \<^verbatim>\<open>Flag1\<close> and the outer
  \<^verbatim>\<open>Flag2\<close>; the \<^verbatim>\<open>Flag2\<close> nested in \<^verbatim>\<open>Field4\<close> is not among them.
\<close>

lemma mix_hyps:
  "\<forall>name \<in> set (concat (map Names mixFields)).
      Name name \<noteq> ''_'' \<longrightarrow> pkg_defs mixPkg name \<noteq> None"
  "\<forall>name \<in> set (concat (map Names mixFields)).
      qualifies mixPkg name \<longrightarrow> trimmed mixPkg (Name name) \<noteq> []"
  by (simp_all add: mixFields_def mixPkg_def mixDefs_def trimmed_def)

lemma mix_candidates:
  "candidates mixPkg mixFields =
     [\<lparr>Field = ''Flag1'', Flag = ''Flag1''\<rparr>, \<lparr>Field = ''Flag2'', Flag = ''Flag2''\<rparr>]"
  by (simp add: candidates_def mixFields_def qualifies_def mixPkg_def mixDefs_def
      candidate_def trimmed_def capitalized_def upperByte_ascii)

theorem resolver_candidates_witness:
  "genSpecs mixPkg [mixSpec] (reset (newFile (OtherNode [TypeDecl [mixSpec]])) ''MixOptions'') =
     Inr ((reset (newFile (OtherNode [TypeDecl [mixSpec]])) ''MixOptions'')
            \<lparr>foundSourceType := Some mixObj,
             flagValues := [\<lparr>Field = ''Flag1'', Flag = ''Flag1''\<rparr>,
                            \<lparr>Field = ''Flag2'', Flag = ''Flag2''\<rparr>]\<rparr>) \<and>
   map Name (filter (qualifies mixPkg) (concat (map Names mixFields))) = [''Flag1'', ''Flag2'']"
proof -
  have a: "sourceTypeName (reset (newFile (OtherNode [TypeDecl [mixSpec]])) ''MixOptions'') =
             Name (spec_Name mixSpec)"
    by (simp add: mixSpec_def)
  have b: "spec_Type mixSpec = StructType mixFields" by (simp add: mixSpec_def)
  have c: "pkg_defs mixPkg (spec_Name mixSpec) = Some mixObj"
    by (simp add: mixSpec_def mixPkg_def mixDefs_def)
  from resolver_candidates [OF a b c mix_hyps] show ?thesis
    by (simp add: mix_candidates)
qed

subsection \<open>A struct of \<open>n\<close> boolean fields\<close>

lemma options_names: "concat (map Names (boolFields n)) = map flagIdent [0..<n]"
  by (induction n) (simp_all add: boolFields_def)

lemma options_qualifies: "qualifies (optionsPkg n s) (flagIdent i)"
  by (simp add: qualifies_def optionsPkg_def optionsDefs_def flagIdent_def)

lemma options_candidates_length: "length (candidates (optionsPkg n s) (boolFields n)) = n"
  by (simp add: candidates_def options_names options_qualifies)

lemma options_found:
  "findStructTypeFile (optionsPkg n s) ''Options'' =
     Inr (Some ((reset (optionsFile n) ''Options'')
        \<lparr>foundSourceType := Some (optionsObj n),
         flagValues := candidates (optionsPkg n s) (boolFields n),
         flagsSize := flagSize (int n)\<rparr>))"
proof -
  have g: "genSpecs (optionsPkg n s) [optionsSpec n] (reset (optionsFile n) ''Options'') =
             Inr ((reset (optionsFile n) ''Options'')
               \<lparr>foundSourceType := Some (optionsObj n),
                flagValues := candidates (optionsPkg n s) (boolFields n)\<rparr>)"
    by (rule genSpecs_struct)
       (simp_all add: optionsSpec_def optionsPkg_def optionsDefs_def options_names trimmed_def
          flagIdent_def)
  have "findStructTypeFile (optionsPkg n s) ''Options'' =
          Inr (Some (((reset (optionsFile n) ''Options'')
               \<lparr>foundSourceType := Some (optionsObj n),
                flagValues := candidates (optionsPkg n s) (boolFields n)\<rparr>)
             \<lparr>flagsSize := flagSize (int (length (flagValues ((reset (optionsFile n) ''Options'')
               \<lparr>foundSourceType := Some (optionsObj n),
                flagValues := candidates (optionsPkg n s) (boolFields n)\<rparr>))))\<rparr>))"
  proof (rule find_unique [where pre = "[]" and post = "[]" and fl = "optionsFile n"
        and tspec = "optionsSpec n"])
    show "pkg_files (optionsPkg n s) = [] @ optionsFile n # []"
      by (simp add: optionsPkg_def)
    show "\<forall>f \<in> set []. matchingSpecs (file_ast f) ''Options'' = []" by simp
    show "matchingSpecs (file_ast (optionsFile n)) ''Options'' = [optionsSpec n]"
      by (simp add: matchingSpecs_def optionsFile_def newFile_def optionsSpec_def)
    show "genSpecs (optionsPkg n s) [optionsSpec n] (reset (optionsFile n) ''Options'') =
             Inr ((reset (optionsFile n) ''Options'')
               \<lparr>foundSourceType := Some (optionsObj n),
                flagValues := candidates (optionsPkg n s) (boolFields n)\<rparr>)"
      by (rule g)
  qed
  then show ?thesis by (simp add: options_candidates_length)
qed

subsection \<open>Sizes\<close>

text \<open>
  Claim C3. Let a type be resolved to a file with at least one flag value and a minimal
  width \<open>m = flagsSize f\<close> of at most 64 (\<open>m\<close> is \<^verbatim>\<open>flagSize\<close> of the number of flag
  values), and let \<open>s\<close> be the size asked for on the command line. When \<open>s = 0\<close> the type
  is emitted with width \<open>m\<close>. When \<open>0 < s < m\<close> the run ends with the fatal message that
  names the type, \<open>m\<close> and \<open>s\<close>, and it ends before the file of that package variant is
  written: the files written are those of the variants before. When \<open>s \<ge> m\<close> (and
  \<open>s \<noteq> 0\<close>) the type is emitted with width \<open>s\<close>.
\<close>

theorem size_override:
  assumes f: "findStructTypeFile pkg t = Inr (Some f)"
    and valid: "isValidStructFile f"
    and m: "flagsSize f \<le> 64"
    and g: "gen_pkg g = pkg"
  shows "flagsSize f = flagSize (int (length (flagValues f))) \<and>
    (pkg_flagsSize pkg = 0 \<longrightarrow>
       generateForStruct g t out f =
         Inr (g\<lparr>buf := buf g @
            [Body \<lparr>SourceTypeName = t, OutTypeName = out, OutTypeSize = flagsSize f,
                   OutInterfaceName = out @ ''Interface'',
                   FlagValues = flagValues f\<rparr>]\<rparr>)) \<and>
    (0 < pkg_flagsSize pkg \<and> pkg_flagsSize pkg < flagsSize f \<longrightarrow>
       generateForStruct g t out f =
         Inl (Fatal ''error: type %s flags size is too small; required at least %d, requested %d''
                [S t, I (flagsSize f), I (pkg_flagsSize pkg)]) \<and>
       (t \<in> set (sourceTypeNames inp) \<longrightarrow> (\<exists>e. mainLoop inp (pkg # pkgs) ws = (ws, Inl e))) \<and>
       (sourceTypeNames inp = t # rest \<longrightarrow>
          main inp (pkg # pkgs) =
            ([], Some (Fatal
               ''error: type %s flags size is too small; required at least %d, requested %d''
               [S t, I (flagsSize f), I (pkg_flagsSize pkg)])))) \<and>
    (flagsSize f \<le> pkg_flagsSize pkg \<and> pkg_flagsSize pkg \<noteq> 0 \<longrightarrow>
       generateForStruct g t out f =
         Inr (g\<lparr>buf := buf g @
            [Body \<lparr>SourceTypeName = t, OutTypeName = out, OutTypeSize = pkg_flagsSize pkg,
                   OutInterfaceName = out @ ''Interface'',
                   FlagValues = flagValues f\<rparr>]\<rparr>))"
proof (intro conjI impI)
  show "flagsSize f = flagSize (int (length (flagValues f)))"
    using find_sized [OF f] by (simp add: sized_def)
  show "generateForStruct g t out f =
         Inr (g\<lparr>buf := buf g @
            [Body \<lparr>SourceTypeName = t, OutTypeName = out, OutTypeSize = flagsSize f,
                   OutInterfaceName = out @ ''Interface'',
                   FlagValues = flagValues f\<rparr>]\<rparr>)"
    if "pkg_flagsSize pkg = 0"
    using that m g by (simp add: generateForStruct_def Let_def)
  show "generateForStruct g t out f =
         Inr (g\<lparr>buf := buf g @
            [Body \<lparr>SourceTypeName = t, OutTypeName = out, OutTypeSize = pkg_flagsSize pkg,
                   OutInterfaceName = out @ ''Interface'',
                   FlagValues = flagValues f\<rparr>]\<rparr>)"
    if "flagsSize f \<le> pkg_flagsSize pkg \<and> pkg_flagsSize pkg \<noteq> 0"
    using that m g by (simp add: generateForStruct_def Let_def)
next
  assume s: "0 < pkg_flagsSize pkg \<and> pkg_flagsSize pkg < flagsSize f"
  show gf: "generateForStruct g t out f =
         Inl (Fatal ''error: type %s flags size is too small; required at least %d, requested %d''
                [S t, I (flagsSize f), I (pkg_flagsSize pkg)])"
    using s m g by (simp add: generateForStruct_def Let_def)
  have st: "stops pkg t" using f s by (simp add: stops_def rejected_def)
  show "\<exists>e. mainLoop inp (pkg # pkgs) ws = (ws, Inl e)" if "t \<in> set (sourceTypeNames inp)"
    using mainLoop_fails [OF that st] .
  show "main inp (pkg # pkgs) =
            ([], Some (Fatal
               ''error: type %s flags size is too small; required at least %d, requested %d''
               [S t, I (flagsSize f), I (pkg_flagsSize pkg)]))"
    if "sourceTypeNames inp = t # rest"
    using main_first_generate_fails [OF that f valid gf g] .
qed

theorem size_override_witness:
  "(\<exists>f. findStructTypeFile (optionsPkg 10 8) ''Options'' = Inr (Some f) \<and>
        isValidStructFile f \<and> flagsSize f = 16 \<and> pkg_flagsSize (optionsPkg 10 8) = 8) \<and>
   main optionsInput [optionsPkg 10 8] =
     ([], Some (Fatal
        ''error: type %s flags size is too small; required at least %d, requested %d''
        [S ''Options'', I 16, I 8]))"
proof -
  let ?f = "(reset (optionsFile 10) ''Options'')
        \<lparr>foundSourceType := Some (optionsObj 10),
         flagValues := candidates (optionsPkg 10 8) (boolFields 10),
         flagsSize := flagSize (int 10)\<rparr>"
  have f: "findStructTypeFile (optionsPkg 10 8) ''Options'' = Inr (Some ?f)"
    by (rule options_found)
  have v: "isValidStructFile ?f"
    using options_candidates_length [of 10 8] by (simp add: isValidStructFile_def)
  have sz: "flagsSize ?f = 16" by (simp add: flagSize_def)
  have m: "flagsSize ?f \<le> 64" by (simp add: flagSize_def)
  have g: "gen_pkg \<lparr>buf = [], gen_pkg = optionsPkg 10 8\<rparr> = optionsPkg 10 8" by simp
  have p: "pkg_flagsSize (optionsPkg 10 8) = 8" by (simp add: optionsPkg_def)
  have n: "sourceTypeNames optionsInput = ''Options'' # []" by (simp add: optionsInput_def)
  from size_override [OF f v m g, of "[]" optionsInput "[]" "[]" "[]"] sz p n f v
  show ?thesis by simp
qed

text \<open>
  Claim C4. When the file a type is resolved to holds \<open>n > 64\<close> flag values, the run ends
  with the fatal message that names the type, \<open>n\<close> and the maximum of 64, before the file
  of that package variant is written. The flag values are never cut down to 64: for a
  struct declaration that is the only one of its name in its file, they are all the
  candidates of the declaration, as many as it has qualifying field names.
\<close>

theorem too_many_fields:
  "(findStructTypeFile pkg t = Inr (Some f) \<and> 64 < length (flagValues f) \<and> gen_pkg g = pkg \<longrightarrow>
      flagsSize f = int (length (flagValues f)) \<and>
      generateForStruct g t out f =
        Inl (Fatal
          ''error: type %s contains %d bool fields which is more than supported; maximum supported is 64''
          [S t, I (int (length (flagValues f)))]) \<and>
      (t \<in> set (sourceTypeNames inp) \<longrightarrow> (\<exists>e. mainLoop inp (pkg # pkgs) ws = (ws, Inl e))) \<and>
      (sourceTypeNames inp = t # rest \<longrightarrow>
         main inp (pkg # pkgs) =
           ([], Some (Fatal
              ''error: type %s contains %d bool fields which is more than supported; maximum supported is 64''
              [S t, I (int (length (flagValues f)))])))) \<and>
   (pkg_files pkg = pre @ fl # post \<and>
    (\<forall>f' \<in> set pre. matchingSpecs (file_ast f') t = []) \<and>
    matchingSpecs (file_ast fl) t = [tspec] \<and>
    spec_Type tspec = StructType flds \<and>
    pkg_defs pkg (spec_Name tspec) = Some obj \<and>
    (\<forall>name \<in> set (concat (map Names flds)). Name name \<noteq> ''_'' \<longrightarrow> pkg_defs pkg name \<noteq> None) \<and>
    (\<forall>name \<in> set (concat (map Names flds)). qualifies pkg name \<longrightarrow> trimmed pkg (Name name) \<noteq> [])
    \<longrightarrow>
      (\<exists>f'. findStructTypeFile pkg t = Inr (Some f') \<and>
            flagValues f' = candidates pkg flds \<and>
            length (flagValues f') = length (filter (qualifies pkg) (concat (map Names flds)))))"
proof (intro conjI impI)
  assume a: "findStructTypeFile pkg t = Inr (Some f) \<and> 64 < length (flagValues f) \<and> gen_pkg g = pkg"
  then have f: "findStructTypeFile pkg t = Inr (Some f)" and n: "64 < length (flagValues f)"
    and g: "gen_pkg g = pkg" by simp_all
  from find_sized [OF f] n show sz: "flagsSize f = int (length (flagValues f))"
    by (simp add: sized_def flagSize_def)
  show gf: "generateForStruct g t out f =
        Inl (Fatal
          ''error: type %s contains %d bool fields which is more than supported; maximum supported is 64''
          [S t, I (int (length (flagValues f)))])"
    using sz n by (simp add: generateForStruct_def Let_def)
  have v: "isValidStructFile f" using n by (auto simp: isValidStructFile_def)
  have st: "stops pkg t" using f sz n by (simp add: stops_def rejected_def)
  show "\<exists>e. mainLoop inp (pkg # pkgs) ws = (ws, Inl e)" if "t \<in> set (sourceTypeNames inp)"
    using mainLoop_fails [OF that st] .
  show "main inp (pkg # pkgs) =
           ([], Some (Fatal
              ''error: type %s contains %d bool fields which is more than supported; maximum supported is 64''
              [S t, I (int (length (flagValues f)))]))"
    if "sourceTypeNames inp = t # rest"
    using main_first_generate_fails [OF that f v gf g] .
next
  assume b: "pkg_files pkg = pre @ fl # post \<and>
    (\<forall>f' \<in> set pre. matchingSpecs (file_ast f') t = []) \<and>
    matchingSpecs (file_ast fl) t = [tspec] \<and>
    spec_Type tspec = StructType flds \<and>
    pkg_defs pkg (spec_Name tspec) = Some obj \<and>
    (\<forall>name \<in> set (concat (map Names flds)). Name name \<noteq> ''_'' \<longrightarrow> pkg_defs pkg name \<noteq> None) \<and>
    (\<forall>name \<in> set (concat (map Names flds)). qualifies pkg name \<longrightarrow> trimmed pkg (Name name) \<noteq> [])"
  then have nm: "sourceTypeName (reset fl t) = Name (spec_Name tspec)"
    using matching_name [of "file_ast fl" t tspec] by simp
  from b have "genSpecs pkg [tspec] (reset fl t) =
      Inr ((reset fl t)\<lparr>foundSourceType := Some obj, flagValues := candidates pkg flds\<rparr>)"
    by (intro genSpecs_struct nm) simp_all
  with b have "findStructTypeFile pkg t =
      Inr (Some (((reset fl t)\<lparr>foundSourceType := Some obj, flagValues := candidates pkg flds\<rparr>)
        \<lparr>flagsSize := flagSize (int (length (flagValues
           ((reset fl t)\<lparr>foundSourceType := Some obj, flagValues := candidates pkg flds\<rparr>))))\<rparr>))"
    by (intro find_unique [where pre = pre and post = post and tspec = tspec]) simp_all
  then show "\<exists>f'. findStructTypeFile pkg t = Inr (Some f') \<and>
            flagValues f' = candidates pkg flds \<and>
            length (flagValues f') = length (filter (qualifies pkg) (concat (map Names flds)))"
    by (simp add: candidates_def)
qed

theorem too_many_fields_witness:
  "(\<exists>f. findStructTypeFile (optionsPkg 65 0) ''Options'' = Inr (Some f) \<and>
        length (flagValues f) = 65 \<and> flagsSize f = 65) \<and>
   length (filter (qualifies (optionsPkg 65 0)) (concat (map Names (boolFields 65)))) = 65 \<and>
   main optionsInput [optionsPkg 65 0] =
     ([], Some (Fatal
        ''error: type %s contains %d bool fields which is more than supported; maximum supported is 64''
        [S ''Options'', I 65]))"
proof -
  let ?f = "(reset (optionsFile 65) ''Options'')
        \<lparr>foundSourceType := Some (optionsObj 65),
         flagValues := candidates (optionsPkg 65 0) (boolFields 65),
         flagsSize := flagSize (int 65)\<rparr>"
  have f: "findStructTypeFile (optionsPkg 65 0) ''Options'' = Inr (Some ?f)"
    by (rule options_found)
  have l: "length (flagValues ?f) = 65"
    using options_candidates_length [of 65 0] by simp
  have q: "length (filter (qualifies (optionsPkg 65 0)) (concat (map Names (boolFields 65)))) = 65"
    by (simp add: options_names options_qualifies)
  have n: "sourceTypeNames optionsInput = ''Options'' # []" by (simp add: optionsInput_def)
  from too_many_fields [of "optionsPkg 65 0" "''Options''" ?f
      "\<lparr>buf = [], gen_pkg = optionsPkg 65 0\<rparr>" "[]" optionsInput "[]" "[]" "[]"]
    f l n q
  show ?thesis by (simp add: flagSize_def)
qed

subsection \<open>Package variants\<close>








text \<open>
  Claim C6, evaluated where it fails. With \<^verbatim>\<open>-type=A,B -outType=X,Y\<close>, \<^verbatim>\<open>A\<close> declared in
  the ordinary package and \<^verbatim>\<open>B\<close> only in its test files, the run ends without failure and
  generates \<^verbatim>\<open>X\<close> for \<^verbatim>\<open>A\<close> and again \<^verbatim>\<open>X\<close> for \<^verbatim>\<open>B\<close>, not \<^verbatim>\<open>Y\<close>: the second package
  variant indexes the unchanged \<^verbatim>\<open>outTypeNames\<close> with the position of \<^verbatim>\<open>B\<close> among the
  remaining source types.
\<close>

theorem outType_pairing_later_variant:
  "snd (main abxyInput [xPlain, xWithTests, xExternal]) = None \<and>
   map (\<lambda>w. outNames (w_src w)) (fst (main abxyInput [xPlain, xWithTests, xExternal])) =
     [[(''A'', ''X'')], [(''B'', ''X'')]]"
  by code_simp

subsection \<open>A declaration that is not a struct with boolean fields\<close>

text \<open>
  Claim C7, evaluated where it fails. A file declares \<^verbatim>\<open>type T int\<close> and, inside a
  function, \<^verbatim>\<open>type T struct { A bool }\<close>. The file contains a declaration of the
  requested name that is not a struct, yet the run ends without failure and emits \<^verbatim>\<open>T\<close>:
  the second declaration of the name overwrites what the walk found at the first, and the
  fatal message for an unsupported type is not reached.
\<close>

theorem shadowed_declaration_is_emitted:
  "pkg_files shadowPkg = [newFile shadowAst] \<and>
   intSpec \<in> set (matchingSpecs (file_ast (newFile shadowAst)) ''T'') \<and>
   spec_Type intSpec = OtherExpr \<and>
   sourceTypeNames tInput = [''T''] \<and>
   snd (main tInput [shadowPkg]) = None \<and>
   allEmitted (fst (main tInput [shadowPkg])) = [''T'']"
  by code_simp

text \<open>
  The path that does what the claim says: when the file declares the requested name
  once, no file before it declares the name, and the declaration is not a struct, or is a
  struct none of whose field names qualifies, the search returns that file with the type
  marked as found and no flag values, whatever the files after it are (they are not
  walked), and the run ends with a failure before the file of that package variant is
  written; when the name is the first one requested, the failure is the fatal message
  about an unsupported type.
\<close>

lemma unsupported_match_is_fatal:
  assumes files: "pkg_files pkg = pre @ fl # post"
    and pre: "\<forall>f' \<in> set pre. matchingSpecs (file_ast f') t = []"
    and one: "matchingSpecs (file_ast fl) t = [tspec]"
    and ob: "pkg_defs pkg (spec_Name tspec) = Some obj"
    and shape: "spec_Type tspec = OtherExpr \<or>
       (\<exists>flds. spec_Type tspec = StructType flds \<and>
          (\<forall>name \<in> set (concat (map Names flds)).
              Name name \<noteq> ''_'' \<longrightarrow> pkg_defs pkg name \<noteq> None) \<and>
          filter (qualifies pkg) (concat (map Names flds)) = [])"
  shows "findStructTypeFile pkg t =
           Inr (Some (fl\<lparr>sourceTypeName := t, foundSourceType := Some obj,
                        flagValues := [], flagsSize := 0\<rparr>)) \<and>
         (t \<in> set (sourceTypeNames inp) \<longrightarrow> (\<exists>e. mainLoop inp (pkg # pkgs) ws = (ws, Inl e))) \<and>
         (sourceTypeNames inp = t # rest \<longrightarrow>
            main inp (pkg # pkgs) =
              ([], Some (Fatal
                 (''error: found unsupported type %s (%s) for name %s in package %s.'' @
                  [CHR 0x0A, CHR 0x09] @
                  ''supported types are struct types with bool fields.'')
                 [S (obj_Name obj), T (Underlying (obj_Type obj)), S t, S (pkg_name pkg)])))"
proof -
  let ?f = "fl\<lparr>sourceTypeName := t, foundSourceType := Some obj,
                flagValues := [], flagsSize := 0\<rparr>"
  have nm: "sourceTypeName (reset fl t) = Name (spec_Name tspec)"
    using matching_name [OF one] by simp
  have g: "genSpecs pkg [tspec] (reset fl t) = Inr ((reset fl t)\<lparr>foundSourceType := Some obj\<rparr>)"
    using shape
  proof
    assume "spec_Type tspec = OtherExpr"
    then show ?thesis by (rule genSpecs_other [OF nm _ ob])
  next
    assume "\<exists>flds. spec_Type tspec = StructType flds \<and>
          (\<forall>name \<in> set (concat (map Names flds)).
              Name name \<noteq> ''_'' \<longrightarrow> pkg_defs pkg name \<noteq> None) \<and>
          filter (qualifies pkg) (concat (map Names flds)) = []"
    then obtain flds where st: "spec_Type tspec = StructType flds"
      and defs: "\<forall>name \<in> set (concat (map Names flds)).
              Name name \<noteq> ''_'' \<longrightarrow> pkg_defs pkg name \<noteq> None"
      and nq: "filter (qualifies pkg) (concat (map Names flds)) = []"
      by blast
    from nq have nq': "\<forall>name \<in> set (concat (map Names flds)).
        qualifies pkg name \<longrightarrow> trimmed pkg (Name name) \<noteq> []"
      by (simp add: filter_empty_conv)
    have c: "candidates pkg flds = []" using nq by (simp add: candidates_def)
    from genSpecs_struct [OF nm st ob defs nq'] c show ?thesis
      by (simp add: reset_def)
  qed
  from find_unique [OF files pre one g]
  have f: "findStructTypeFile pkg t = Inr (Some ?f)"
    by (simp add: reset_def flagSize_def)
  have nv: "\<not> isValidStructFile ?f" by (simp add: isValidStructFile_def)
  have sp: "stops pkg t" using f nv by (simp add: stops_def rejected_def)
  have u: "unsupported pkg t ?f =
      Fatal (''error: found unsupported type %s (%s) for name %s in package %s.'' @
                  [CHR 0x0A, CHR 0x09] @
                  ''supported types are struct types with bool fields.'')
                 [S (obj_Name obj), T (Underlying (obj_Type obj)), S t, S (pkg_name pkg)]"
    by (simp add: unsupported_def)
  show ?thesis
  proof (intro conjI impI)
    show "findStructTypeFile pkg t = Inr (Some ?f)" by (rule f)
    show "\<exists>e. mainLoop inp (pkg # pkgs) ws = (ws, Inl e)" if "t \<in> set (sourceTypeNames inp)"
      using mainLoop_fails [OF that sp] .
    show "main inp (pkg # pkgs) =
              ([], Some (Fatal
                 (''error: found unsupported type %s (%s) for name %s in package %s.'' @
                  [CHR 0x0A, CHR 0x09] @
                  ''supported types are struct types with bool fields.'')
                 [S (obj_Name obj), T (Underlying (obj_Type obj)), S t, S (pkg_name pkg)]))"
      if "sourceTypeNames inp = t # rest"
      using main_first_invalid [OF that f nv] u by simp
  qed
qed

lemma unsupported_match_example:
  "pkg_files intPkg = [intFile] \<and>
   matchingSpecs (file_ast intFile) ''T'' = [intSpec] \<and>
   spec_Type intSpec = OtherExpr \<and>
   (\<exists>f. findStructTypeFile intPkg ''T'' = Inr (Some f) \<and>
        foundSourceType f = Some intObj \<and> flagValues f = []) \<and>
   main tInput [intPkg] =
     ([], Some (Fatal
        (''error: found unsupported type %s (%s) for name %s in package %s.'' @
         [CHR 0x0A, CHR 0x09] @
         ''supported types are struct types with bool fields.'')
        [S ''T'', T (Basic Int_kind), S ''T'', S ''p'']))"
proof -
  have files: "pkg_files intPkg = [] @ intFile # []" by (simp add: intPkg_def)
  have pre: "\<forall>f' \<in> set []. matchingSpecs (file_ast f') ''T'' = []" by simp
  have one: "matchingSpecs (file_ast intFile) ''T'' = [intSpec]"
    by (simp add: matchingSpecs_def intFile_def newFile_def intSpec_def)
  have ob: "pkg_defs intPkg (spec_Name intSpec) = Some intObj"
    by (simp add: intPkg_def shadowDefs_def intSpec_def)
  have shape: "spec_Type intSpec = OtherExpr \<or>
       (\<exists>flds. spec_Type intSpec = StructType flds \<and>
          (\<forall>name \<in> set (concat (map Names flds)).
              Name name \<noteq> ''_'' \<longrightarrow> pkg_defs intPkg name \<noteq> None) \<and>
          filter (qualifies intPkg) (concat (map Names flds)) = [])"
    by (simp add: intSpec_def)
  have n: "sourceTypeNames tInput = ''T'' # []" by (simp add: tInput_def)
  from unsupported_match_is_fatal [OF files pre one ob shape, of tInput "[]" "[]" "[]"] n files one
  show ?thesis by (simp add: intObj_def intPkg_def intSpec_def)
qed

subsection \<open>Flag names\<close>

text \<open>
  Claim C8, evaluated. The field \<^verbatim>\<open>optFlagEnabled\<close> with prefix \<^verbatim>\<open>opt\<close> and suffix
  \<^verbatim>\<open>Enabled\<close> gives \<^verbatim>\<open>Flag\<close>. A field name that starts with a letter outside ASCII does
  not get its first character in upper case: the name of bytes C3 BC 62 65 72 (u with
  diaeresis, then \<^verbatim>\<open>ber\<close>) comes back unchanged, and of the name of bytes E6 97 A5 (one
  character without case) the first byte is replaced by C6, which leaves a sequence that
  is not the name and not UTF-8.
\<close>

theorem flagName_first_byte:
  "flagName ''optFlagEnabled'' ''opt'' ''Enabled'' = Inr ''Flag'' \<and>
   flagName [CHR 0xC3, CHR 0xBC, CHR ''b'', CHR ''e'', CHR ''r''] [] [] =
     Inr [CHR 0xC3, CHR 0xBC, CHR ''b'', CHR ''e'', CHR ''r''] \<and>
   flagName [CHR 0xE6, CHR 0x97, CHR 0xA5] [] [] = Inr [CHR 0xC6, CHR 0x97, CHR 0xA5]"
  by code_simp

text \<open>
  What holds of every field name: when the first byte left by the trimming is ASCII, the
  flag name is what the trimming leaves, with that byte in upper case.
\<close>

lemma flagName_ascii:
  assumes "TrimSuffix (TrimPrefix fieldName p) s = b # bs" and "of_char b \<le> (127 :: nat)"
  shows "flagName fieldName p s =
           Inr ((if 97 \<le> (of_char b :: nat) \<and> of_char b \<le> (122 :: nat)
                 then char_of (of_char b - 32 :: nat) else b) # bs)"
  using assms by (simp add: flagName_eq upperByte_ascii)

text \<open>
  Claim C10. \<^verbatim>\<open>flagName\<close> panics with an index out of range exactly when the field name,
  without the prefix and then without the suffix, is empty. When a struct declaration (the
  only one of its name in its file) has a qualifying field whose name is trimmed to
  nothing, the search for the type ends with that panic and so does the run: no name is
  produced and no message of the generator's own is printed.
\<close>

theorem empty_flag_name_panics:
  "(flagName fieldName p s = Inl (Panic ''runtime error: index out of range [0] with length 0'')
      \<longleftrightarrow> TrimSuffix (TrimPrefix fieldName p) s = []) \<and>
   (pkg_files pkg = pre @ fl # post \<and>
    (\<forall>f' \<in> set pre. matchingSpecs (file_ast f') t = []) \<and>
    matchingSpecs (file_ast fl) t = [tspec] \<and>
    spec_Type tspec = StructType flds \<and>
    pkg_defs pkg (spec_Name tspec) = Some obj \<and>
    (\<forall>name \<in> set (concat (map Names flds)). Name name \<noteq> ''_'' \<longrightarrow> pkg_defs pkg name \<noteq> None) \<and>
    (\<exists>name \<in> set (concat (map Names flds)). qualifies pkg name \<and> trimmed pkg (Name name) = [])
    \<longrightarrow>
      findStructTypeFile pkg t =
        Inl (Panic ''runtime error: index out of range [0] with length 0'') \<and>
      (t \<in> set (sourceTypeNames inp) \<longrightarrow> (\<exists>e. mainLoop inp (pkg # pkgs) ws = (ws, Inl e))) \<and>
      (sourceTypeNames inp = t # rest \<longrightarrow>
         main inp (pkg # pkgs) =
           ([], Some (Panic ''runtime error: index out of range [0] with length 0''))))"
proof (intro conjI impI)
  show "(flagName fieldName p s = Inl (Panic ''runtime error: index out of range [0] with length 0''))
      = (TrimSuffix (TrimPrefix fieldName p) s = [])"
    by (simp add: flagName_eq split: list.splits)
next
  assume b: "pkg_files pkg = pre @ fl # post \<and>
    (\<forall>f' \<in> set pre. matchingSpecs (file_ast f') t = []) \<and>
    matchingSpecs (file_ast fl) t = [tspec] \<and>
    spec_Type tspec = StructType flds \<and>
    pkg_defs pkg (spec_Name tspec) = Some obj \<and>
    (\<forall>name \<in> set (concat (map Names flds)). Name name \<noteq> ''_'' \<longrightarrow> pkg_defs pkg name \<noteq> None) \<and>
    (\<exists>name \<in> set (concat (map Names flds)). qualifies pkg name \<and> trimmed pkg (Name name) = [])"
  then have nm: "sourceTypeName (reset fl t) = Name (spec_Name tspec)"
    using matching_name [of "file_ast fl" t tspec] by simp
  from b have st: "spec_Type tspec = StructType flds"
    and ob: "pkg_defs pkg (spec_Name tspec) = Some obj"
    and defs: "\<forall>name \<in> set (concat (map Names flds)).
                 Name name \<noteq> ''_'' \<longrightarrow> pkg_defs pkg name \<noteq> None"
    and ex: "\<exists>name \<in> set (concat (map Names flds)).
               qualifies pkg name \<and> trimmed pkg (Name name) = []"
    by blast+
  have "genSpecs pkg [tspec] (reset fl t) =
      Inl (Panic ''runtime error: index out of range [0] with length 0'')"
    by (rule genSpecs_struct_panics [OF nm st ob defs ex])
  with b show f: "findStructTypeFile pkg t =
      Inl (Panic ''runtime error: index out of range [0] with length 0'')"
    by (intro find_unique_fails [where pre = pre and post = post and tspec = tspec]) simp_all
  then have sp: "stops pkg t" by (simp add: stops_def)
  show "\<exists>e. mainLoop inp (pkg # pkgs) ws = (ws, Inl e)" if "t \<in> set (sourceTypeNames inp)"
    using mainLoop_fails [OF that sp] .
  show "main inp (pkg # pkgs) =
           ([], Some (Panic ''runtime error: index out of range [0] with length 0''))"
    if "sourceTypeNames inp = t # rest"
    using main_first_find_fails [OF that f] .
qed

theorem empty_flag_name_witness:
  "flagName ''opt'' ''opt'' [] =
     Inl (Panic ''runtime error: index out of range [0] with length 0'') \<and>
   TrimSuffix (TrimPrefix ''opt'' ''opt'') [] = [] \<and>
   qualifies optPkg (Ident 51 ''opt'') \<and> trimmed optPkg ''opt'' = [] \<and>
   main tInput [optPkg] =
     ([], Some (Panic ''runtime error: index out of range [0] with length 0''))"
proof -
  have q: "qualifies optPkg (Ident 51 ''opt'')"
    by (simp add: qualifies_def optPkg_def optDefs_def)
  have tr: "trimmed optPkg ''opt'' = []"
    by (simp add: trimmed_def optPkg_def TrimPrefix_def HasPrefix_def)
  have tp: "TrimSuffix (TrimPrefix ''opt'' ''opt'') [] = []"
    by (simp add: TrimPrefix_def HasPrefix_def)
  have h: "pkg_files optPkg = [] @ optFile # [] \<and>
    (\<forall>f' \<in> set []. matchingSpecs (file_ast f') ''T'' = []) \<and>
    matchingSpecs (file_ast optFile) ''T'' = [optSpec] \<and>
    spec_Type optSpec = StructType optFields \<and>
    pkg_defs optPkg (spec_Name optSpec) = Some optObj \<and>
    (\<forall>name \<in> set (concat (map Names optFields)).
        Name name \<noteq> ''_'' \<longrightarrow> pkg_defs optPkg name \<noteq> None) \<and>
    (\<exists>name \<in> set (concat (map Names optFields)).
        qualifies optPkg name \<and> trimmed optPkg (Name name) = [])"
    using q tr
    by (simp add: optPkg_def optDefs_def optFile_def optSpec_def optFields_def
        matchingSpecs_def newFile_def)
  have n: "sourceTypeNames tInput = ''T'' # []" by (simp add: tInput_def)
  note inst = empty_flag_name_panics [where fieldName = "''opt''" and p = "''opt''" and s = "[]"
      and pkg = optPkg and pre = "[]" and post = "[]" and fl = optFile and tspec = optSpec
      and flds = optFields and obj = optObj and t = "''T''" and inp = tInput
      and pkgs = "[]" and rest = "[]" and ws = "[]"]
  from inst tp have "flagName ''opt'' ''opt'' [] =
     Inl (Panic ''runtime error: index out of range [0] with length 0'')"
    by simp
  moreover from inst h n have "main tInput [optPkg] =
     ([], Some (Panic ''runtime error: index out of range [0] with length 0''))"
    by blast
  ultimately show ?thesis using q tr tp by simp
qed

end
